theory Spec2Isabelle
  imports Main
begin

section \<open>AFClientService: load-state-aware retrieval and publish-info caching\<close>

text \<open>
  A shallow embedding of the stateful part of
  \<^verbatim>\<open>src/application/services/js-services/index.ts\<close> (class \<^verbatim>\<open>AFClientService\<close>).
  The private fields of the class are a record that every method takes and returns.
  A rejected promise and a thrown exception are both the left summand of the result.
  The modules the class imports (cache, fetch, http, sync, session) are collaborators:
  what they answer is read from an environment record, and every call issued to them is
  appended to a trace kept with the state, so that the order of calls can be stated.
\<close>

subsection \<open>Values exchanged with the collaborators\<close>

text \<open>\<^verbatim>\<open>new Error(message)\<close>; a rejection of a collaborator is an error value as well.\<close>

datatype error = Error string

text \<open>The two members of \<^verbatim>\<open>StrategyType\<close> that the class names.\<close>

datatype StrategyType = CACHE_FIRST | CACHE_AND_NETWORK

text \<open>Opaque payloads: a network body, a Yjs document, view metadata, a user profile.\<close>

datatype raw = Raw string
datatype YDoc = YDoc string
datatype ViewMeta = ViewMeta string
datatype User = User string
datatype PublishViewPayload = PublishViewPayload string
datatype UploadPublishNamespacePayload = UploadPublishNamespacePayload string

record UpdatePublishConfigPayload =
  view_id :: string
  config_rest :: string

text \<open>The parsed session token, as far as the class reads it: \<^verbatim>\<open>token.user.id\<close>.\<close>

record token =
  token_user_id :: string

text \<open>
  The response of \<^verbatim>\<open>fetchViewInfo\<close> (variable \<^verbatim>\<open>info\<close> of \<^verbatim>\<open>getPublishInfo\<close>). The
  namespace may be missing (\<open>None\<close>) or empty; both are falsy in JavaScript.
\<close>

record ViewInfo =
  info_namespace :: "string option"
  info_publish_name :: string
  info_publisher_email :: string
  info_view_id :: string
  info_publish_timestamp :: string
  info_comments_enabled :: bool
  info_duplicate_enabled :: bool

text \<open>The record that \<^verbatim>\<open>getPublishInfo\<close> builds (variable \<^verbatim>\<open>data\<close>) and caches.\<close>

record PublishInfo =
  data_namespace :: string
  data_publishName :: string
  data_publisherEmail :: string
  data_viewId :: string
  data_publishedAt :: string
  data_commentEnabled :: bool
  data_duplicateEnabled :: bool

text \<open>The \<^verbatim>\<open>context\<close> argument of \<^verbatim>\<open>registerDocUpdate\<close>; \<^verbatim>\<open>Types\<close> is a numeric enum.\<close>

record SyncContext =
  ctx_workspaceId :: string
  ctx_objectId :: string
  ctx_collabType :: nat

text \<open>The requests that the class delegates to \<^verbatim>\<open>APIService\<close>.\<close>

datatype api_request =
    PublishView string string "PublishViewPayload option"
  | UnpublishView string string
  | UpdatePublishNamespace string UploadPublishNamespacePayload
  | UpdatePublishHomepage string string
  | RemovePublishHomepage string
  | UpdatePublishConfig string UpdatePublishConfigPayload
  | GetCurrentUser

text \<open>
  Calls issued to collaborators, in the order the class issues them. A request handed to
  \<^verbatim>\<open>APIService\<close> is recorded with the publish-info cache the instance holds at that
  moment, so that what was done before the request and what after can be told apart.
  \<^verbatim>\<open>deleteView\<close> returns a promise that the class discards with \<^verbatim>\<open>void\<close>: the call is
  recorded, its outcome is not part of the model.
\<close>

datatype event =
    CacheGetPublishViewMeta string string StrategyType
  | CacheGetPublishView string string StrategyType
  | CacheGetPageDoc string StrategyType
  | CacheGetUser "string option" StrategyType
  | FetchPublishViewMeta string string
  | FetchPublishView string string
  | FetchPageCollab string string
  | FetchViewInfo string
  | HasViewMetaCache string
  | DeleteView string
  | OpenCollabDB string
  | ApiCall api_request "string \<rightharpoonup> PublishInfo"
  | ConsoleError error
  | ErrorCallback error
  | SyncInitialize YDoc string SyncContext

text \<open>
  What a \<^verbatim>\<open>get...\<close> function of the cache module does with the fetcher closure it is
  handed: it settles without invoking the closure, or it invokes the closure once and
  settles from the closure's outcome. The second form also covers a cache function that
  ignores the outcome and serves what it has stored. Calls are sequential in this model:
  the closure has run to its end when the cache function settles.
\<close>

datatype ('a, 'b) cache_run =
    Serve "error + 'b"
  | Revalidate "error + 'a \<Rightarrow> error + 'b"

text \<open>
  A detached \<^verbatim>\<open>void (async () => { ... })()\<close> block that is suspended at an
  \<^verbatim>\<open>await\<close>: the block in \<^verbatim>\<open>getPublishView\<close> waiting for \<^verbatim>\<open>hasViewMetaCache(name)\<close>.
\<close>

datatype task = PurgePublishView string

text \<open>How a call of the caller's \<^verbatim>\<open>errorCallback\<close> ends: it returns, or it throws.\<close>

datatype completion = Normal | Throw error

subsection \<open>The service instance and its environment\<close>

text \<open>
  The three private collections of the class, then the detached tasks that have not
  resumed yet and the trace of collaborator calls.
\<close>

record state =
  viewLoaded :: "string set"
  publishViewLoaded :: "string set"
  publishViewInfo :: "string \<rightharpoonup> PublishInfo"
  pending :: "task list"
  trace :: "event list"

text \<open>The state of a fresh instance: every field initialiser of the class is empty.\<close>

definition init :: state where
  "init = \<lparr>viewLoaded = {}, publishViewLoaded = {}, publishViewInfo = Map.empty,
            pending = [], trace = []\<rparr>"

text \<open>The answers of the collaborators. The class does not implement any of them.\<close>

record env =
  getTokenParsed :: "token option"
  fetchPublishViewMeta :: "string \<Rightarrow> string \<Rightarrow> error + raw"
  fetchPublishView :: "string \<Rightarrow> string \<Rightarrow> error + raw"
  fetchPageCollab :: "string \<Rightarrow> string \<Rightarrow> error + raw"
  fetchViewInfo :: "string \<Rightarrow> error + ViewInfo"
  cache_getPublishViewMeta :: "string \<Rightarrow> string \<Rightarrow> StrategyType \<Rightarrow> (raw, ViewMeta option) cache_run"
  cache_getPublishView :: "string \<Rightarrow> string \<Rightarrow> StrategyType \<Rightarrow> (raw, YDoc) cache_run"
  cache_getPageDoc :: "string \<Rightarrow> StrategyType \<Rightarrow> (raw, YDoc) cache_run"
  cache_getUser :: "string option \<Rightarrow> StrategyType \<Rightarrow> (raw, User option) cache_run"
  hasViewMetaCache :: "string \<Rightarrow> error + bool"
  openCollabDB :: "string \<Rightarrow> error + YDoc"
  hasCollabCache :: "YDoc \<Rightarrow> bool"
  APIService :: "api_request \<Rightarrow> error + raw"

definition emit :: "event \<Rightarrow> state \<Rightarrow> state" where
  "emit ev s = s\<lparr>trace := trace s @ [ev]\<rparr>"

definition spawn :: "task \<Rightarrow> state \<Rightarrow> state" where
  "spawn t s = s\<lparr>pending := pending s @ [t]\<rparr>"

text \<open>The events appended to the trace between two states.\<close>

definition issued :: "state \<Rightarrow> state \<Rightarrow> event list" where
  "issued s s' = drop (length (trace s)) (trace s')"

text \<open>A call of an \<^verbatim>\<open>APIService\<close> function: the request is issued, the answer returned.\<close>

definition APIService_call :: "env \<Rightarrow> api_request \<Rightarrow> state \<Rightarrow> (error + raw) \<times> state" where
  "APIService_call env req s = (APIService env req, emit (ApiCall req (publishViewInfo s)) s)"

text \<open>A call of a \<^verbatim>\<open>get...\<close> function of the cache module with a fetcher closure.\<close>

definition run_cache ::
  "('a, 'b) cache_run \<Rightarrow> (state \<Rightarrow> (error + 'a) \<times> state) \<Rightarrow> state \<Rightarrow> (error + 'b) \<times> state" where
  "run_cache c fetcher s =
     (case c of
        Serve r \<Rightarrow> (r, s)
      | Revalidate k \<Rightarrow> (case fetcher s of (x, s') \<Rightarrow> (k x, s')))"

subsection \<open>The JavaScript \<^verbatim>\<open>Map\<close> and template strings\<close>

definition Map_has :: "('k \<rightharpoonup> 'v) \<Rightarrow> 'k \<Rightarrow> bool" where
  "Map_has m k = (m k \<noteq> None)"

definition Map_delete :: "('k \<rightharpoonup> 'v) \<Rightarrow> 'k \<Rightarrow> ('k \<rightharpoonup> 'v)" where
  "Map_delete m k = m(k := None)"

definition Map_set :: "('k \<rightharpoonup> 'v) \<Rightarrow> 'k \<Rightarrow> 'v \<Rightarrow> ('k \<rightharpoonup> 'v)" where
  "Map_set m k v = m(k \<mapsto> v)"

definition Map_clear :: "('k \<rightharpoonup> 'v) \<Rightarrow> ('k \<rightharpoonup> 'v)" where
  "Map_clear m = Map.empty"

text \<open>\<^verbatim>\<open>`${namespace}_${publishName}`\<close>, the key of a published view.\<close>

definition publishViewName :: "string \<Rightarrow> string \<Rightarrow> string" where
  "publishViewName namespace publishName = namespace @ ''_'' @ publishName"

text \<open>\<^verbatim>\<open>`${userId}_${workspaceId}_${viewId}`\<close>, the key of a page document.\<close>

definition pageDocName :: "string \<Rightarrow> string \<Rightarrow> string \<Rightarrow> string" where
  "pageDocName userId workspaceId viewId = userId @ ''_'' @ workspaceId @ ''_'' @ viewId"

subsection \<open>Publish mutations\<close>

definition publishView ::
  "env \<Rightarrow> string \<Rightarrow> string \<Rightarrow> PublishViewPayload option \<Rightarrow> state \<Rightarrow> (error + raw) \<times> state" where
  "publishView env workspaceId viewId payload s =
     (let s1 = (if Map_has (publishViewInfo s) viewId
                then s\<lparr>publishViewInfo := Map_delete (publishViewInfo s) viewId\<rparr>
                else s)
      in APIService_call env (PublishView workspaceId viewId payload) s1)"

definition unpublishView :: "env \<Rightarrow> string \<Rightarrow> string \<Rightarrow> state \<Rightarrow> (error + raw) \<times> state" where
  "unpublishView env workspaceId viewId s =
     (let s1 = (if Map_has (publishViewInfo s) viewId
                then s\<lparr>publishViewInfo := Map_delete (publishViewInfo s) viewId\<rparr>
                else s)
      in APIService_call env (UnpublishView workspaceId viewId) s1)"

definition updatePublishNamespace ::
  "env \<Rightarrow> string \<Rightarrow> UploadPublishNamespacePayload \<Rightarrow> state \<Rightarrow> (error + raw) \<times> state" where
  "updatePublishNamespace env workspaceId payload s =
     APIService_call env (UpdatePublishNamespace workspaceId payload)
       (s\<lparr>publishViewInfo := Map_clear (publishViewInfo s)\<rparr>)"

definition updatePublishHomepage :: "env \<Rightarrow> string \<Rightarrow> string \<Rightarrow> state \<Rightarrow> (error + raw) \<times> state" where
  "updatePublishHomepage env workspaceId viewId s =
     APIService_call env (UpdatePublishHomepage workspaceId viewId) s"

definition removePublishHomepage :: "env \<Rightarrow> string \<Rightarrow> state \<Rightarrow> (error + raw) \<times> state" where
  "removePublishHomepage env workspaceId s =
     APIService_call env (RemovePublishHomepage workspaceId) s"

definition updatePublishConfig ::
  "env \<Rightarrow> string \<Rightarrow> UpdatePublishConfigPayload \<Rightarrow> state \<Rightarrow> (error + raw) \<times> state" where
  "updatePublishConfig env workspaceId config s =
     APIService_call env (UpdatePublishConfig workspaceId config)
       (s\<lparr>publishViewInfo := Map_delete (publishViewInfo s) (view_id config)\<rparr>)"

subsection \<open>Publish info\<close>

text \<open>
  \<^verbatim>\<open>has(viewId)\<close> followed by \<^verbatim>\<open>get(viewId)\<close> is the case distinction on the lookup;
  \<^verbatim>\<open>!namespace\<close> holds for a missing and for an empty namespace.
\<close>

definition getPublishInfo :: "env \<Rightarrow> string \<Rightarrow> state \<Rightarrow> (error + PublishInfo) \<times> state" where
  "getPublishInfo env viewId s =
     (case publishViewInfo s viewId of
        Some cached \<Rightarrow> (Inr cached, s)
      | None \<Rightarrow>
          (let s1 = emit (FetchViewInfo viewId) s in
           case fetchViewInfo env viewId of
             Inl e \<Rightarrow> (Inl e, s1)
           | Inr info \<Rightarrow>
               (case info_namespace info of
                  None \<Rightarrow> (Inl (Error ''View not found''), s1)
                | Some namespace \<Rightarrow>
                    if namespace = [] then (Inl (Error ''View not found''), s1)
                    else
                      (let data = \<lparr>data_namespace = namespace,
                                    data_publishName = info_publish_name info,
                                    data_publisherEmail = info_publisher_email info,
                                    data_viewId = info_view_id info,
                                    data_publishedAt = info_publish_timestamp info,
                                    data_commentEnabled = info_comments_enabled info,
                                    data_duplicateEnabled = info_duplicate_enabled info\<rparr>
                       in (Inr data,
                           s1\<lparr>publishViewInfo := Map_set (publishViewInfo s1) viewId data\<rparr>)))))"

text \<open>
  \<^verbatim>\<open>getPublishInfo\<close> split at its \<^verbatim>\<open>await\<close>, for a call whose response arrives after
  other calls have run. \<open>getPublishInfo_begin\<close> is the part before: the cached record
  on a hit, else the fetch is issued. \<open>getPublishInfo_settle\<close> is the part after, run
  with the response in the state the instance has by then.
\<close>

definition getPublishInfo_begin :: "string \<Rightarrow> state \<Rightarrow> PublishInfo option \<times> state" where
  "getPublishInfo_begin viewId s =
     (case publishViewInfo s viewId of
        Some cached \<Rightarrow> (Some cached, s)
      | None \<Rightarrow> (None, emit (FetchViewInfo viewId) s))"

definition getPublishInfo_settle ::
  "string \<Rightarrow> error + ViewInfo \<Rightarrow> state \<Rightarrow> (error + PublishInfo) \<times> state" where
  "getPublishInfo_settle viewId response s1 =
     (case response of
        Inl e \<Rightarrow> (Inl e, s1)
      | Inr info \<Rightarrow>
          (case info_namespace info of
             None \<Rightarrow> (Inl (Error ''View not found''), s1)
           | Some namespace \<Rightarrow>
               if namespace = [] then (Inl (Error ''View not found''), s1)
               else
                 (let data = \<lparr>data_namespace = namespace,
                               data_publishName = info_publish_name info,
                               data_publisherEmail = info_publisher_email info,
                               data_viewId = info_view_id info,
                               data_publishedAt = info_publish_timestamp info,
                               data_commentEnabled = info_comments_enabled info,
                               data_duplicateEnabled = info_duplicate_enabled info\<rparr>
                  in (Inr data,
                      s1\<lparr>publishViewInfo := Map_set (publishViewInfo s1) viewId data\<rparr>))))"

subsection \<open>Retrievals\<close>

text \<open>The fetcher of \<^verbatim>\<open>getPublishViewMeta\<close> is the plain network call.\<close>

definition getPublishViewMeta ::
  "env \<Rightarrow> string \<Rightarrow> string \<Rightarrow> state \<Rightarrow> (error + ViewMeta) \<times> state" where
  "getPublishViewMeta env namespace publishName s =
     (let name = publishViewName namespace publishName;
          isLoaded = (name \<in> publishViewLoaded s);
          fetcher = (\<lambda>t. (fetchPublishViewMeta env namespace publishName,
                          emit (FetchPublishViewMeta namespace publishName) t));
          strategy = (if isLoaded then CACHE_FIRST else CACHE_AND_NETWORK)
      in case run_cache (cache_getPublishViewMeta env namespace publishName strategy) fetcher
                (emit (CacheGetPublishViewMeta namespace publishName strategy) s) of
           (Inl e, s1) \<Rightarrow> (Inl e, s1)
         | (Inr None, s1) \<Rightarrow> (Inl (Error ''View has not been published yet''), s1)
         | (Inr (Some viewMeta), s1) \<Rightarrow> (Inr viewMeta, s1))"

text \<open>
  The fetcher of \<^verbatim>\<open>getPublishView\<close>: on a rejected fetch it logs, starts the detached
  block (which calls \<^verbatim>\<open>hasViewMetaCache(name)\<close> and suspends at the \<^verbatim>\<open>await\<close>) and
  rejects with the same error.
\<close>

definition getPublishView_fetcher ::
  "env \<Rightarrow> string \<Rightarrow> string \<Rightarrow> string \<Rightarrow> state \<Rightarrow> (error + raw) \<times> state" where
  "getPublishView_fetcher env namespace publishName name t =
     (let t1 = emit (FetchPublishView namespace publishName) t in
      case fetchPublishView env namespace publishName of
        Inr r \<Rightarrow> (Inr r, t1)
      | Inl e \<Rightarrow>
          (Inl e, spawn (PurgePublishView name)
                    (emit (HasViewMetaCache name) (emit (ConsoleError e) t1))))"

definition getPublishView ::
  "env \<Rightarrow> string \<Rightarrow> string \<Rightarrow> state \<Rightarrow> (error + YDoc) \<times> state" where
  "getPublishView env namespace publishName s =
     (let name = publishViewName namespace publishName;
          isLoaded = (name \<in> publishViewLoaded s);
          strategy = (if isLoaded then CACHE_FIRST else CACHE_AND_NETWORK)
      in case run_cache (cache_getPublishView env namespace publishName strategy)
                (getPublishView_fetcher env namespace publishName name)
                (emit (CacheGetPublishView namespace publishName strategy) s) of
           (Inl e, s1) \<Rightarrow> (Inl e, s1)
         | (Inr doc, s1) \<Rightarrow>
             (Inr doc,
              if \<not> isLoaded
              then s1\<lparr>publishViewLoaded := insert name (publishViewLoaded s1)\<rparr>
              else s1))"

text \<open>
  The detached block of \<^verbatim>\<open>getPublishView\<close> resumes when \<^verbatim>\<open>hasViewMetaCache\<close> has
  settled. \<open>resume\<close> runs the oldest pending block to its end; its first component is
  the rejection of the block's own promise, if any.
\<close>

definition resume :: "env \<Rightarrow> state \<Rightarrow> error option \<times> state" where
  "resume env s =
     (case pending s of
        [] \<Rightarrow> (None, s)
      | PurgePublishView name # rest \<Rightarrow>
          (let s1 = s\<lparr>pending := rest\<rparr> in
           case hasViewMetaCache env name of
             Inl e \<Rightarrow> (Some e, s1)
           | Inr b \<Rightarrow>
               if b
               then (None, emit (DeleteView name)
                             (s1\<lparr>publishViewLoaded := publishViewLoaded s1 - {name}\<rparr>))
               else (None, s1)))"

text \<open>
  The detached block in the fetcher of \<^verbatim>\<open>getPageDoc\<close> contains no \<^verbatim>\<open>await\<close>, so it runs
  to its end when it is started: \<^verbatim>\<open>viewLoaded.delete(name)\<close> and \<^verbatim>\<open>deleteView(name)\<close>,
  then the fetcher rejects with the error it caught.
\<close>

definition getPageDoc_purge :: "string \<Rightarrow> error \<Rightarrow> state \<Rightarrow> (error + raw) \<times> state" where
  "getPageDoc_purge name e t =
     (Inl e, emit (DeleteView name) (t\<lparr>viewLoaded := viewLoaded t - {name}\<rparr>))"

text \<open>
  The fetcher of \<^verbatim>\<open>getPageDoc\<close>. \<^verbatim>\<open>errorCallback?.(e)\<close> runs in the catch block before the
  purge: without a callback it is skipped; a callback that throws ends the catch block
  there, so the purge does not run and the fetcher rejects with what the callback threw.
\<close>

definition getPageDoc_fetcher ::
  "env \<Rightarrow> string \<Rightarrow> string \<Rightarrow> (error \<Rightarrow> completion) option \<Rightarrow> string \<Rightarrow> state
     \<Rightarrow> (error + raw) \<times> state" where
  "getPageDoc_fetcher env workspaceId viewId errorCallback name t =
     (let t1 = emit (FetchPageCollab workspaceId viewId) t in
      case fetchPageCollab env workspaceId viewId of
        Inr r \<Rightarrow> (Inr r, t1)
      | Inl e \<Rightarrow>
          (let t2 = emit (ConsoleError e) t1 in
           case errorCallback of
             None \<Rightarrow> getPageDoc_purge name e t2
           | Some callback \<Rightarrow>
               (let t3 = emit (ErrorCallback e) t2 in
                case callback e of
                  Normal \<Rightarrow> getPageDoc_purge name e t3
                | Throw thrown \<Rightarrow> (Inl thrown, t3))))"

text \<open>
  \<^verbatim>\<open>errorCallback\<close> is optional: \<open>None\<close> when the caller passes none.
  \<^verbatim>\<open>!userId\<close> holds when there is no token and when the id is the empty string.
\<close>

definition getPageDoc ::
  "env \<Rightarrow> string \<Rightarrow> string \<Rightarrow> (error \<Rightarrow> completion) option \<Rightarrow> state
     \<Rightarrow> (error + YDoc) \<times> state" where
  "getPageDoc env workspaceId viewId errorCallback s =
     (case getTokenParsed env of
        None \<Rightarrow> (Inl (Error ''User not found''), s)
      | Some token \<Rightarrow>
          (let userId = token_user_id token in
           if userId = [] then (Inl (Error ''User not found''), s)
           else
             (let name = pageDocName userId workspaceId viewId;
                  isLoaded = (name \<in> viewLoaded s);
                  strategy = (if isLoaded then CACHE_FIRST else CACHE_AND_NETWORK)
              in case run_cache (cache_getPageDoc env name strategy)
                        (getPageDoc_fetcher env workspaceId viewId errorCallback name)
                        (emit (CacheGetPageDoc name strategy) s) of
                   (Inl e, s1) \<Rightarrow> (Inl e, s1)
                 | (Inr doc, s1) \<Rightarrow>
                     (Inr doc,
                      if \<not> isLoaded
                      then s1\<lparr>viewLoaded := insert name (viewLoaded s1)\<rparr>
                      else s1))))"

definition getPublishRowDocument :: "env \<Rightarrow> string \<Rightarrow> state \<Rightarrow> (error + YDoc) \<times> state" where
  "getPublishRowDocument env viewId s =
     (let s1 = emit (OpenCollabDB viewId) s in
      case openCollabDB env viewId of
        Inl e \<Rightarrow> (Inl e, s1)
      | Inr doc \<Rightarrow>
          if hasCollabCache env doc then (Inr doc, s1)
          else (Inl (Error ''Document not found''), s1))"

text \<open>\<^verbatim>\<open>token?.user?.id\<close> is passed on as it is, also when it is undefined.\<close>

definition getCurrentUser :: "env \<Rightarrow> state \<Rightarrow> (error + User) \<times> state" where
  "getCurrentUser env s =
     (let userId = map_option token_user_id (getTokenParsed env) in
      case run_cache (cache_getUser env userId CACHE_AND_NETWORK)
             (APIService_call env GetCurrentUser)
             (emit (CacheGetUser userId CACHE_AND_NETWORK) s) of
        (Inl e, s1) \<Rightarrow> (Inl e, s1)
      | (Inr None, s1) \<Rightarrow> (Inl (Error ''User not found''), s1)
      | (Inr (Some user), s1) \<Rightarrow> (Inr user, s1))"

subsection \<open>Sync registration\<close>

definition registerDocUpdate :: "env \<Rightarrow> YDoc \<Rightarrow> SyncContext \<Rightarrow> state \<Rightarrow> (error + unit) \<times> state" where
  "registerDocUpdate env doc context s =
     (case getTokenParsed env of
        None \<Rightarrow> (Inl (Error ''User not found''), s)
      | Some token \<Rightarrow>
          (let userId = token_user_id token in
           if userId = [] then (Inl (Error ''User not found''), s)
           else (Inr (), emit (SyncInitialize doc userId context) s)))"

subsection \<open>Calls as data\<close>

text \<open>
  One constructor for each modelled method, and \<open>Resume\<close> for the resumption of a
  detached block. \<open>perform\<close> keeps the state a call leaves behind, so that sequences of
  calls can be folded over.
\<close>

datatype call =
    Call_publishView string string "PublishViewPayload option"
  | Call_unpublishView string string
  | Call_updatePublishNamespace string UploadPublishNamespacePayload
  | Call_updatePublishHomepage string string
  | Call_removePublishHomepage string
  | Call_updatePublishConfig string UpdatePublishConfigPayload
  | Call_getPublishInfo string
  | Call_getPublishViewMeta string string
  | Call_getPublishView string string
  | Call_getPageDoc string string "(error \<Rightarrow> completion) option"
  | Call_getPublishRowDocument string
  | Call_getCurrentUser
  | Call_registerDocUpdate YDoc SyncContext
  | Resume

fun perform :: "env \<Rightarrow> call \<Rightarrow> state \<Rightarrow> state" where
  "perform env (Call_publishView workspaceId viewId payload) s =
     snd (publishView env workspaceId viewId payload s)"
| "perform env (Call_unpublishView workspaceId viewId) s =
     snd (unpublishView env workspaceId viewId s)"
| "perform env (Call_updatePublishNamespace workspaceId payload) s =
     snd (updatePublishNamespace env workspaceId payload s)"
| "perform env (Call_updatePublishHomepage workspaceId viewId) s =
     snd (updatePublishHomepage env workspaceId viewId s)"
| "perform env (Call_removePublishHomepage workspaceId) s =
     snd (removePublishHomepage env workspaceId s)"
| "perform env (Call_updatePublishConfig workspaceId config) s =
     snd (updatePublishConfig env workspaceId config s)"
| "perform env (Call_getPublishInfo viewId) s = snd (getPublishInfo env viewId s)"
| "perform env (Call_getPublishViewMeta namespace publishName) s =
     snd (getPublishViewMeta env namespace publishName s)"
| "perform env (Call_getPublishView namespace publishName) s =
     snd (getPublishView env namespace publishName s)"
| "perform env (Call_getPageDoc workspaceId viewId errorCallback) s =
     snd (getPageDoc env workspaceId viewId errorCallback s)"
| "perform env (Call_getPublishRowDocument viewId) s = snd (getPublishRowDocument env viewId s)"
| "perform env Call_getCurrentUser s = snd (getCurrentUser env s)"
| "perform env (Call_registerDocUpdate doc context) s = snd (registerDocUpdate env doc context s)"
| "perform env Resume s = snd (resume env s)"

subsection \<open>Reading a trace\<close>

text \<open>
  The requests for a keyed entity that a trace holds, each as the key and the strategy
  it was issued with.
\<close>

fun cache_requests :: "event list \<Rightarrow> (string \<times> StrategyType) list" where
  "cache_requests [] = []"
| "cache_requests (CacheGetPublishViewMeta namespace publishName strategy # evs) =
     (publishViewName namespace publishName, strategy) # cache_requests evs"
| "cache_requests (CacheGetPublishView namespace publishName strategy # evs) =
     (publishViewName namespace publishName, strategy) # cache_requests evs"
| "cache_requests (CacheGetPageDoc name strategy # evs) = (name, strategy) # cache_requests evs"
| "cache_requests (ev # evs) = cache_requests evs"

text \<open>
  What a cache function settles with, given the outcome its fetcher closure has when it
  is invoked.
\<close>

fun settled :: "('a, 'b) cache_run \<Rightarrow> error + 'a \<Rightarrow> error + 'b" where
  "settled (Serve r) x = r"
| "settled (Revalidate k) x = k x"


text \<open>The caller passed no \<^verbatim>\<open>errorCallback\<close>, or the one passed returns when called with \<open>e\<close>.\<close>

definition callback_returns :: "(error \<Rightarrow> completion) option \<Rightarrow> error \<Rightarrow> bool" where
  "callback_returns errorCallback e =
     (case errorCallback of None \<Rightarrow> True | Some callback \<Rightarrow> callback e = Normal)"

text \<open>The error the fetcher of \<^verbatim>\<open>getPageDoc\<close> rejects with when its fetch rejected with \<open>e\<close>.\<close>

definition closure_error :: "(error \<Rightarrow> completion) option \<Rightarrow> error \<Rightarrow> error" where
  "closure_error errorCallback e =
     (case errorCallback of
        None \<Rightarrow> e
      | Some callback \<Rightarrow> (case callback e of Normal \<Rightarrow> e | Throw thrown \<Rightarrow> thrown))"

text \<open>The strategy the retrievals choose: \<^verbatim>\<open>isLoaded ? CACHE_FIRST : CACHE_AND_NETWORK\<close>.\<close>

definition chosen :: "string \<Rightarrow> string set \<Rightarrow> StrategyType" where
  "chosen name loaded = (if name \<in> loaded then CACHE_FIRST else CACHE_AND_NETWORK)"

subsection \<open>A concrete environment\<close>

text \<open>
  Modelled from the spec: the cache storage collaborator (module
  \<^verbatim>\<open>js-services/cache\<close>, not part of the file). CACHE_FIRST serves the stored value if
  there is one and else invokes the fetcher and stores; CACHE_AND_NETWORK invokes the
  fetcher whatever is stored. A rejection of the fetcher is the rejection of the call.
\<close>

definition spec_cache :: "'b option \<Rightarrow> ('a \<Rightarrow> 'b) \<Rightarrow> StrategyType \<Rightarrow> ('a, 'b) cache_run" where
  "spec_cache stored shape strategy =
     (case strategy of
        CACHE_FIRST \<Rightarrow>
          (case stored of
             Some v \<Rightarrow> Serve (Inr v)
           | None \<Rightarrow> Revalidate (map_sum id shape))
      | CACHE_AND_NETWORK \<Rightarrow> Revalidate (map_sum id shape))"

definition docOf :: "raw \<Rightarrow> YDoc" where
  "docOf r = (case r of Raw x \<Rightarrow> YDoc x)"

definition metaOf :: "raw \<Rightarrow> ViewMeta option" where
  "metaOf r = (case r of Raw x \<Rightarrow> Some (ViewMeta x))"

definition userOf :: "raw \<Rightarrow> User option" where
  "userOf r = (case r of Raw x \<Rightarrow> Some (User x))"

definition info42 :: ViewInfo where
  "info42 = \<lparr>info_namespace = Some ''ns1'', info_publish_name = ''note'',
             info_publisher_email = ''a@b.c'', info_view_id = ''view42'',
             info_publish_timestamp = ''2024-01-01'', info_comments_enabled = True,
             info_duplicate_enabled = False\<rparr>"

definition data42 :: PublishInfo where
  "data42 = \<lparr>data_namespace = ''ns1'', data_publishName = ''note'',
             data_publisherEmail = ''a@b.c'', data_viewId = ''view42'',
             data_publishedAt = ''2024-01-01'', data_commentEnabled = True,
             data_duplicateEnabled = False\<rparr>"

text \<open>Signed in as \<^verbatim>\<open>u1\<close>, network reachable, nothing stored in the persistent cache.\<close>

definition env_online :: env where
  "env_online =
     \<lparr>getTokenParsed = Some \<lparr>token_user_id = ''u1''\<rparr>,
      fetchPublishViewMeta = (\<lambda>namespace publishName. Inr (Raw ''meta'')),
      fetchPublishView = (\<lambda>namespace publishName. Inr (Raw ''view'')),
      fetchPageCollab = (\<lambda>workspaceId viewId. Inr (Raw ''page'')),
      fetchViewInfo = (\<lambda>viewId. Inr info42),
      cache_getPublishViewMeta = (\<lambda>namespace publishName. spec_cache None metaOf),
      cache_getPublishView = (\<lambda>namespace publishName. spec_cache None docOf),
      cache_getPageDoc = (\<lambda>name. spec_cache None docOf),
      cache_getUser = (\<lambda>userId. spec_cache None userOf),
      hasViewMetaCache = (\<lambda>name. Inr False),
      openCollabDB = (\<lambda>name. Inr (YDoc [])),
      hasCollabCache = (\<lambda>doc. False),
      APIService = (\<lambda>req. Inr (Raw ''ok''))\<rparr>"

text \<open>The same session with every network call rejected.\<close>

definition env_offline :: env where
  "env_offline =
     env_online
       \<lparr>fetchPublishViewMeta := (\<lambda>namespace publishName. Inl (Error ''Network Error'')),
        fetchPublishView := (\<lambda>namespace publishName. Inl (Error ''Network Error'')),
        fetchPageCollab := (\<lambda>workspaceId viewId. Inl (Error ''Network Error'')),
        fetchViewInfo := (\<lambda>viewId. Inl (Error ''Network Error'')),
        APIService := (\<lambda>req. Inl (Error ''Network Error''))\<rparr>"


text \<open>Online, with the cache functions and the collab database resolving to nothing.\<close>

definition env_absent :: env where
  "env_absent =
     env_online
       \<lparr>cache_getPublishViewMeta := (\<lambda>namespace publishName strategy. Revalidate (\<lambda>x. Inr None)),
        cache_getUser := (\<lambda>userId strategy. Revalidate (\<lambda>x. Inr None))\<rparr>"

text \<open>No session token.\<close>

definition env_anonymous :: env where
  "env_anonymous = env_online\<lparr>getTokenParsed := None\<rparr>"

text \<open>An instance that has loaded one page and one published view.\<close>

definition s_loaded :: state where
  "s_loaded = init\<lparr>viewLoaded := {''u1_w1_v1''}, publishViewLoaded := {''ns1_note''}\<rparr>"

text \<open>An instance that holds the publish info of \<^verbatim>\<open>view42\<close>.\<close>

definition s_cached :: state where
  "s_cached = init\<lparr>publishViewInfo := [''view42'' \<mapsto> data42]\<rparr>"

text \<open>
  A read of \<^verbatim>\<open>view42\<close> that is in flight across a mutation. On a fresh instance a first
  \<^verbatim>\<open>getPublishInfo\<close> begins and awaits its response; a second one runs to its end and
  caches the record; \<^verbatim>\<open>publishView\<close> is called; then the response of the first read,
  sent before the mutation, arrives.
\<close>

definition s_read_cached :: state where
  "s_read_cached = snd (getPublishInfo env_online ''view42'' (snd (getPublishInfo_begin ''view42'' init)))"

definition s_republished :: state where
  "s_republished = snd (publishView env_online ''w1'' ''view42'' None s_read_cached)"

definition s_raced :: state where
  "s_raced = snd (getPublishInfo_settle ''view42'' (Inr info42) s_republished)"


subsection \<open>Sequences of calls\<close>

text \<open>
  A session is a list of calls, each with the answers the collaborators give during it.
\<close>

definition run :: "(env \<times> call) list \<Rightarrow> state \<Rightarrow> state" where
  "run calls s = fold (\<lambda>(env, c). perform env c) calls s"

section \<open>Basic facts\<close>

lemma emit_fields [simp]:
  "trace (emit ev s) = trace s @ [ev]"
  "viewLoaded (emit ev s) = viewLoaded s"
  "publishViewLoaded (emit ev s) = publishViewLoaded s"
  "publishViewInfo (emit ev s) = publishViewInfo s"
  "pending (emit ev s) = pending s"
  by (simp_all add: emit_def)

lemma spawn_fields [simp]:
  "trace (spawn t s) = trace s"
  "viewLoaded (spawn t s) = viewLoaded s"
  "publishViewLoaded (spawn t s) = publishViewLoaded s"
  "publishViewInfo (spawn t s) = publishViewInfo s"
  "pending (spawn t s) = pending s @ [t]"
  by (simp_all add: spawn_def)

lemma issued_append [simp]: "trace s' = trace s @ evs \<Longrightarrow> issued s s' = evs"
  by (simp add: issued_def)

lemma issued_self [simp]: "issued s s = []"
  by (simp add: issued_def)

lemma APIService_call_fields [simp]:
  "fst (APIService_call env req s) = APIService env req"
  "trace (snd (APIService_call env req s)) = trace s @ [ApiCall req (publishViewInfo s)]"
  "viewLoaded (snd (APIService_call env req s)) = viewLoaded s"
  "publishViewLoaded (snd (APIService_call env req s)) = publishViewLoaded s"
  "publishViewInfo (snd (APIService_call env req s)) = publishViewInfo s"
  "pending (snd (APIService_call env req s)) = pending s"
  by (simp_all add: APIService_call_def)

section \<open>Invalidation of the publish-info cache\<close>

text \<open>
  Claim C7. Removing a view's entry from the publish-info cache is idempotent: the second
  removal changes nothing, for the bare \<^verbatim>\<open>Map.delete\<close> and for each mutation that
  performs it (\<^verbatim>\<open>publishView\<close>, \<^verbatim>\<open>unpublishView\<close>, \<^verbatim>\<open>updatePublishConfig\<close>). When the view
  has no entry, the cache is left as it was and the call settles with exactly what the
  network mutation answers: the removal raises nothing of its own.
\<close>

theorem invalidate_idempotent:
  "Map_delete (Map_delete m viewId) viewId = Map_delete m viewId
   \<and> (\<not> Map_has m viewId \<longrightarrow> Map_delete m viewId = m)
   \<and> publishViewInfo (snd (publishView env workspaceId viewId payload
         (snd (publishView env workspaceId viewId payload s))))
       = publishViewInfo (snd (publishView env workspaceId viewId payload s))
   \<and> publishViewInfo (snd (unpublishView env workspaceId viewId
         (snd (unpublishView env workspaceId viewId s))))
       = publishViewInfo (snd (unpublishView env workspaceId viewId s))
   \<and> publishViewInfo (snd (updatePublishConfig env workspaceId config
         (snd (updatePublishConfig env workspaceId config s))))
       = publishViewInfo (snd (updatePublishConfig env workspaceId config s))
   \<and> (\<not> Map_has (publishViewInfo s) viewId \<longrightarrow>
        publishViewInfo (snd (publishView env workspaceId viewId payload s)) = publishViewInfo s
        \<and> fst (publishView env workspaceId viewId payload s)
            = APIService env (PublishView workspaceId viewId payload)
        \<and> publishViewInfo (snd (unpublishView env workspaceId viewId s)) = publishViewInfo s
        \<and> fst (unpublishView env workspaceId viewId s)
            = APIService env (UnpublishView workspaceId viewId))
   \<and> (\<not> Map_has (publishViewInfo s) (view_id config) \<longrightarrow>
        publishViewInfo (snd (updatePublishConfig env workspaceId config s)) = publishViewInfo s
        \<and> fst (updatePublishConfig env workspaceId config s)
            = APIService env (UpdatePublishConfig workspaceId config))"
  by (auto simp: Map_delete_def Map_has_def publishView_def unpublishView_def
      updatePublishConfig_def Let_def fun_upd_idem)

theorem invalidate_idempotent_witness:
  "\<not> Map_has (publishViewInfo init) ''view42''
   \<and> publishViewInfo (snd (publishView env_online ''w1'' ''view42'' None init)) = publishViewInfo init
   \<and> fst (publishView env_online ''w1'' ''view42'' None init) = Inr (Raw ''ok'')
   \<and> publishViewInfo (snd (updatePublishConfig env_online ''w1''
        \<lparr>view_id = ''view42'', config_rest = []\<rparr> init)) = publishViewInfo init"
  using invalidate_idempotent [of "publishViewInfo init" "''view42''" env_online "''w1''" None init
      "\<lparr>view_id = ''view42'', config_rest = []\<rparr>"]
  by (simp add: Map_has_def init_def env_online_def)

lemma getPublishInfo_miss_issues_fetch:
  "publishViewInfo s viewId = None \<Longrightarrow>
     issued s (snd (getPublishInfo env viewId s)) = [FetchViewInfo viewId]"
  by (simp add: getPublishInfo_def Let_def Map_set_def split: sum.splits option.splits)

lemma getPublishInfo_miss_answer:
  "publishViewInfo s viewId = None \<Longrightarrow>
     fst (getPublishInfo env viewId s) = fst (getPublishInfo env viewId init)"
  by (simp add: getPublishInfo_def Let_def init_def split: sum.splits option.splits)

text \<open>The two parts of \<open>getPublishInfo\<close>, put together again, are \<open>getPublishInfo\<close>.\<close>

lemma getPublishInfo_split:
  "getPublishInfo env viewId s =
     (case getPublishInfo_begin viewId s of
        (Some cached, s1) \<Rightarrow> (Inr cached, s1)
      | (None, s1) \<Rightarrow> getPublishInfo_settle viewId (fetchViewInfo env viewId) s1)"
  by (simp add: getPublishInfo_def getPublishInfo_begin_def getPublishInfo_settle_def Let_def
      split: option.splits sum.splits)

lemma getPublishInfo_begin_miss:
  "publishViewInfo s viewId = None \<Longrightarrow>
     getPublishInfo_begin viewId s = (None, emit (FetchViewInfo viewId) s)"
  by (simp add: getPublishInfo_begin_def)

text \<open>The cache a mutation leaves, and the one call it issues with the cache held then.\<close>

lemma publishView_cache [simp]:
  "publishViewInfo (snd (publishView env workspaceId viewId payload s))
     = (publishViewInfo s)(viewId := None)"
  by (auto simp: publishView_def Map_has_def Map_delete_def Let_def)

lemma publishView_issued:
  "issued s (snd (publishView env workspaceId viewId payload s))
     = [ApiCall (PublishView workspaceId viewId payload) ((publishViewInfo s)(viewId := None))]"
  by (auto simp: publishView_def Map_has_def Map_delete_def Let_def)

lemma unpublishView_cache [simp]:
  "publishViewInfo (snd (unpublishView env workspaceId viewId s))
     = (publishViewInfo s)(viewId := None)"
  by (auto simp: unpublishView_def Map_has_def Map_delete_def Let_def)

lemma unpublishView_issued:
  "issued s (snd (unpublishView env workspaceId viewId s))
     = [ApiCall (UnpublishView workspaceId viewId) ((publishViewInfo s)(viewId := None))]"
  by (auto simp: unpublishView_def Map_has_def Map_delete_def Let_def)

lemma updatePublishConfig_cache [simp]:
  "publishViewInfo (snd (updatePublishConfig env workspaceId config s))
     = (publishViewInfo s)(view_id config := None)"
  by (simp add: updatePublishConfig_def Map_delete_def)

lemma updatePublishConfig_issued:
  "issued s (snd (updatePublishConfig env workspaceId config s))
     = [ApiCall (UpdatePublishConfig workspaceId config)
          ((publishViewInfo s)(view_id config := None))]"
  by (simp add: updatePublishConfig_def Map_delete_def)

lemma updatePublishNamespace_cache [simp]:
  "publishViewInfo (snd (updatePublishNamespace env workspaceId namespacePayload s)) = Map.empty"
  by (simp add: updatePublishNamespace_def Map_clear_def)

lemma updatePublishNamespace_issued:
  "issued s (snd (updatePublishNamespace env workspaceId namespacePayload s))
     = [ApiCall (UpdatePublishNamespace workspaceId namespacePayload) Map.empty]"
  by (simp add: updatePublishNamespace_def Map_clear_def)

text \<open>
  Claim C4, as stated, fails in two ways. \<^verbatim>\<open>updatePublishHomepage\<close> and
  \<^verbatim>\<open>removePublishHomepage\<close> only delegate: with the publish info of \<^verbatim>\<open>view42\<close> cached,
  either call leaves the record in the cache, and the next \<^verbatim>\<open>getPublishInfo("view42")\<close>
  returns that record. And a read that is in flight across a mutation brings the record
  back: in \<open>s_raced\<close> the record was cached before \<^verbatim>\<open>publishView\<close>, \<^verbatim>\<open>publishView\<close>
  removed it, the response of the earlier read stored it again, and a
  \<^verbatim>\<open>getPublishInfo("view42")\<close> after the mutation returns it without any call.
\<close>

theorem homepage_update_keeps_cached_record:
  "publishViewInfo s_cached ''view42'' = Some data42
   \<and> publishViewInfo (snd (updatePublishHomepage env_online ''w1'' ''view42'' s_cached)) ''view42''
       = Some data42
   \<and> fst (getPublishInfo env_online ''view42''
        (snd (updatePublishHomepage env_online ''w1'' ''view42'' s_cached))) = Inr data42
   \<and> publishViewInfo (snd (removePublishHomepage env_online ''w1'' s_cached)) ''view42''
       = Some data42
   \<and> fst (getPublishInfo env_online ''view42''
        (snd (removePublishHomepage env_online ''w1'' s_cached))) = Inr data42
   \<and> publishViewInfo s_read_cached ''view42'' = Some data42
   \<and> publishViewInfo s_republished ''view42'' = None
   \<and> getPublishInfo env_offline ''view42'' s_raced = (Inr data42, s_raced)"
proof -
  have homepage: "publishViewInfo s_cached ''view42'' = Some data42
   \<and> publishViewInfo (snd (updatePublishHomepage env_online ''w1'' ''view42'' s_cached)) ''view42''
       = Some data42
   \<and> fst (getPublishInfo env_online ''view42''
        (snd (updatePublishHomepage env_online ''w1'' ''view42'' s_cached))) = Inr data42
   \<and> publishViewInfo (snd (removePublishHomepage env_online ''w1'' s_cached)) ''view42''
       = Some data42
   \<and> fst (getPublishInfo env_online ''view42''
        (snd (removePublishHomepage env_online ''w1'' s_cached))) = Inr data42"
    by (simp add: updatePublishHomepage_def removePublishHomepage_def getPublishInfo_def
        s_cached_def init_def)
  have cached: "publishViewInfo s_read_cached ''view42'' = Some data42"
    by (simp add: s_read_cached_def getPublishInfo_begin_def getPublishInfo_def Let_def
        Map_set_def init_def env_online_def info42_def data42_def)
  have gone: "publishViewInfo s_republished ''view42'' = None"
    by (simp add: s_republished_def)
  have restored: "publishViewInfo s_raced ''view42'' = Some data42"
    by (simp add: s_raced_def getPublishInfo_settle_def Let_def Map_set_def info42_def data42_def)
  have "getPublishInfo env_offline ''view42'' s_raced = (Inr data42, s_raced)"
    using restored by (simp add: getPublishInfo_def)
  with homepage cached gone show ?thesis by simp
qed

text \<open>
  Claim C4, amended. \<^verbatim>\<open>publishView\<close>, \<^verbatim>\<open>unpublishView\<close> and \<^verbatim>\<open>updatePublishConfig\<close> issue
  one network mutation, and the cache the instance holds when it is issued has no entry
  for the targeted view; \<^verbatim>\<open>updatePublishNamespace\<close> issues its mutation with an empty
  cache. That is also the cache the call leaves. A \<^verbatim>\<open>getPublishInfo\<close> for that view that
  starts while the cache is as the mutation left it misses, goes to the network and
  answers what it would answer on a fresh instance. The two homepage mutations issue
  their request with the cache unchanged and leave it unchanged.
\<close>

theorem mutation_invalidates_before_request:
  "issued s (snd (publishView env workspaceId viewId payload s))
     = [ApiCall (PublishView workspaceId viewId payload) ((publishViewInfo s)(viewId := None))]
   \<and> publishViewInfo (snd (publishView env workspaceId viewId payload s))
       = (publishViewInfo s)(viewId := None)
   \<and> issued s (snd (unpublishView env workspaceId viewId s))
       = [ApiCall (UnpublishView workspaceId viewId) ((publishViewInfo s)(viewId := None))]
   \<and> publishViewInfo (snd (unpublishView env workspaceId viewId s))
       = (publishViewInfo s)(viewId := None)
   \<and> issued s (snd (updatePublishConfig env workspaceId config s))
       = [ApiCall (UpdatePublishConfig workspaceId config)
            ((publishViewInfo s)(view_id config := None))]
   \<and> publishViewInfo (snd (updatePublishConfig env workspaceId config s))
       = (publishViewInfo s)(view_id config := None)
   \<and> issued s (snd (updatePublishNamespace env workspaceId namespacePayload s))
       = [ApiCall (UpdatePublishNamespace workspaceId namespacePayload) Map.empty]
   \<and> publishViewInfo (snd (updatePublishNamespace env workspaceId namespacePayload s))
       = Map.empty
   \<and> getPublishInfo_begin viewId (snd (publishView env workspaceId viewId payload s))
       = (None, emit (FetchViewInfo viewId) (snd (publishView env workspaceId viewId payload s)))
   \<and> issued (snd (publishView env workspaceId viewId payload s))
        (snd (getPublishInfo env' viewId (snd (publishView env workspaceId viewId payload s))))
       = [FetchViewInfo viewId]
   \<and> fst (getPublishInfo env' viewId (snd (publishView env workspaceId viewId payload s)))
       = fst (getPublishInfo env' viewId init)
   \<and> getPublishInfo_begin viewId (snd (unpublishView env workspaceId viewId s))
       = (None, emit (FetchViewInfo viewId) (snd (unpublishView env workspaceId viewId s)))
   \<and> issued (snd (unpublishView env workspaceId viewId s))
        (snd (getPublishInfo env' viewId (snd (unpublishView env workspaceId viewId s))))
       = [FetchViewInfo viewId]
   \<and> fst (getPublishInfo env' viewId (snd (unpublishView env workspaceId viewId s)))
       = fst (getPublishInfo env' viewId init)
   \<and> getPublishInfo_begin (view_id config) (snd (updatePublishConfig env workspaceId config s))
       = (None, emit (FetchViewInfo (view_id config))
                  (snd (updatePublishConfig env workspaceId config s)))
   \<and> issued (snd (updatePublishConfig env workspaceId config s))
        (snd (getPublishInfo env' (view_id config)
           (snd (updatePublishConfig env workspaceId config s))))
       = [FetchViewInfo (view_id config)]
   \<and> fst (getPublishInfo env' (view_id config)
        (snd (updatePublishConfig env workspaceId config s)))
       = fst (getPublishInfo env' (view_id config) init)
   \<and> getPublishInfo_begin viewId (snd (updatePublishNamespace env workspaceId namespacePayload s))
       = (None, emit (FetchViewInfo viewId)
                  (snd (updatePublishNamespace env workspaceId namespacePayload s)))
   \<and> issued (snd (updatePublishNamespace env workspaceId namespacePayload s))
        (snd (getPublishInfo env' viewId
           (snd (updatePublishNamespace env workspaceId namespacePayload s))))
       = [FetchViewInfo viewId]
   \<and> fst (getPublishInfo env' viewId
        (snd (updatePublishNamespace env workspaceId namespacePayload s)))
       = fst (getPublishInfo env' viewId init)
   \<and> issued s (snd (updatePublishHomepage env workspaceId viewId s))
       = [ApiCall (UpdatePublishHomepage workspaceId viewId) (publishViewInfo s)]
   \<and> publishViewInfo (snd (updatePublishHomepage env workspaceId viewId s)) = publishViewInfo s
   \<and> issued s (snd (removePublishHomepage env workspaceId s))
       = [ApiCall (RemovePublishHomepage workspaceId) (publishViewInfo s)]
   \<and> publishViewInfo (snd (removePublishHomepage env workspaceId s)) = publishViewInfo s"
proof -
  have h: "issued s (snd (updatePublishHomepage env workspaceId viewId s))
       = [ApiCall (UpdatePublishHomepage workspaceId viewId) (publishViewInfo s)]"
    "publishViewInfo (snd (updatePublishHomepage env workspaceId viewId s)) = publishViewInfo s"
    "issued s (snd (removePublishHomepage env workspaceId s))
       = [ApiCall (RemovePublishHomepage workspaceId) (publishViewInfo s)]"
    "publishViewInfo (snd (removePublishHomepage env workspaceId s)) = publishViewInfo s"
    by (simp_all add: updatePublishHomepage_def removePublishHomepage_def)
  show ?thesis
    using h
    by (intro conjI)
      (simp_all add: publishView_issued unpublishView_issued updatePublishConfig_issued
        updatePublishNamespace_issued getPublishInfo_begin_miss
        getPublishInfo_miss_issues_fetch getPublishInfo_miss_answer)
qed

theorem mutation_invalidates_before_request_witness:
  "publishViewInfo s_cached ''view42'' = Some data42
   \<and> issued s_cached (snd (publishView env_online ''w1'' ''view42'' None s_cached))
       = [ApiCall (PublishView ''w1'' ''view42'' None) Map.empty]
   \<and> issued s_cached (snd (updatePublishHomepage env_online ''w1'' ''view42'' s_cached))
       = [ApiCall (UpdatePublishHomepage ''w1'' ''view42'') [''view42'' \<mapsto> data42]]
   \<and> issued (snd (publishView env_online ''w1'' ''view42'' None s_cached))
        (snd (getPublishInfo env_offline ''view42''
           (snd (publishView env_online ''w1'' ''view42'' None s_cached))))
       = [FetchViewInfo ''view42'']
   \<and> fst (getPublishInfo env_offline ''view42''
        (snd (publishView env_online ''w1'' ''view42'' None s_cached)))
       = Inl (Error ''Network Error'')
   \<and> fst (getPublishInfo env_offline ''view42''
        (snd (updatePublishNamespace env_online ''w1'' (UploadPublishNamespacePayload ''ns2'')
           s_cached)))
       = Inl (Error ''Network Error'')"
  using mutation_invalidates_before_request [of s_cached env_online "''w1''" "''view42''" None
      "\<lparr>view_id = ''view42'', config_rest = []\<rparr>" "UploadPublishNamespacePayload ''ns2''"
      env_offline]
  by (simp add: s_cached_def getPublishInfo_def init_def env_offline_def env_online_def)

text \<open>
  Claim C10. When the network mutation of \<^verbatim>\<open>publishView\<close>, \<^verbatim>\<open>unpublishView\<close> or
  \<^verbatim>\<open>updatePublishConfig\<close> rejects, the call rejects with the same error and the cache
  still has no entry for the view: the removal is not undone.
\<close>

theorem invalidation_survives_failed_mutation:
  "(APIService env (PublishView workspaceId viewId payload) = Inl e \<longrightarrow>
      fst (publishView env workspaceId viewId payload s) = Inl e
      \<and> publishViewInfo (snd (publishView env workspaceId viewId payload s)) viewId = None)
   \<and> (APIService env (UnpublishView workspaceId viewId) = Inl e \<longrightarrow>
      fst (unpublishView env workspaceId viewId s) = Inl e
      \<and> publishViewInfo (snd (unpublishView env workspaceId viewId s)) viewId = None)
   \<and> (APIService env (UpdatePublishConfig workspaceId config) = Inl e \<longrightarrow>
      fst (updatePublishConfig env workspaceId config s) = Inl e
      \<and> publishViewInfo (snd (updatePublishConfig env workspaceId config s)) (view_id config) = None)"
  by (simp add: publishView_def unpublishView_def updatePublishConfig_def Let_def
      Map_has_def Map_delete_def)

theorem invalidation_survives_failed_mutation_witness:
  "APIService env_offline (PublishView ''w1'' ''view42'' None) = Inl (Error ''Network Error'')
   \<and> APIService env_offline (UnpublishView ''w1'' ''view42'') = Inl (Error ''Network Error'')
   \<and> APIService env_offline (UpdatePublishConfig ''w1'' \<lparr>view_id = ''view42'', config_rest = []\<rparr>)
       = Inl (Error ''Network Error'')
   \<and> publishViewInfo s_cached ''view42'' = Some data42
   \<and> fst (publishView env_offline ''w1'' ''view42'' None s_cached) = Inl (Error ''Network Error'')
   \<and> publishViewInfo (snd (publishView env_offline ''w1'' ''view42'' None s_cached)) ''view42'' = None
   \<and> publishViewInfo (snd (unpublishView env_offline ''w1'' ''view42'' s_cached)) ''view42'' = None
   \<and> publishViewInfo (snd (updatePublishConfig env_offline ''w1''
        \<lparr>view_id = ''view42'', config_rest = []\<rparr> s_cached)) ''view42'' = None"
  using invalidation_survives_failed_mutation [of env_offline "''w1''" "''view42''" None
      "Error ''Network Error''" s_cached "\<lparr>view_id = ''view42'', config_rest = []\<rparr>"]
  by (simp add: env_offline_def env_online_def s_cached_def init_def)

section \<open>Reading publish info\<close>

text \<open>
  Claim C5. On a hit \<^verbatim>\<open>getPublishInfo\<close> returns the cached record and leaves the state,
  trace included, as it was: no call is issued. On a miss it issues exactly one
  \<^verbatim>\<open>fetchViewInfo\<close>. If the response has no namespace (missing or empty) it rejects with
  "View not found" and stores nothing. Otherwise it returns the record shaped from the
  response and has stored it under the view id.
\<close>

theorem getPublishInfo_read_path:
  "(publishViewInfo s viewId = Some cached \<longrightarrow>
      getPublishInfo env viewId s = (Inr cached, s))
   \<and> (publishViewInfo s viewId = None \<longrightarrow>
      issued s (snd (getPublishInfo env viewId s)) = [FetchViewInfo viewId])
   \<and> (publishViewInfo s viewId = None \<and> fetchViewInfo env viewId = Inr info
        \<and> (info_namespace info = None \<or> info_namespace info = Some []) \<longrightarrow>
      fst (getPublishInfo env viewId s) = Inl (Error ''View not found'')
      \<and> publishViewInfo (snd (getPublishInfo env viewId s)) = publishViewInfo s)
   \<and> (publishViewInfo s viewId = None \<and> fetchViewInfo env viewId = Inr info
        \<and> info_namespace info = Some namespace \<and> namespace \<noteq> [] \<longrightarrow>
      fst (getPublishInfo env viewId s)
        = Inr \<lparr>data_namespace = namespace,
               data_publishName = info_publish_name info,
               data_publisherEmail = info_publisher_email info,
               data_viewId = info_view_id info,
               data_publishedAt = info_publish_timestamp info,
               data_commentEnabled = info_comments_enabled info,
               data_duplicateEnabled = info_duplicate_enabled info\<rparr>
      \<and> publishViewInfo (snd (getPublishInfo env viewId s))
        = (publishViewInfo s)(viewId \<mapsto>
             \<lparr>data_namespace = namespace,
              data_publishName = info_publish_name info,
              data_publisherEmail = info_publisher_email info,
              data_viewId = info_view_id info,
              data_publishedAt = info_publish_timestamp info,
              data_commentEnabled = info_comments_enabled info,
              data_duplicateEnabled = info_duplicate_enabled info\<rparr>))"
proof -
  have hit: "getPublishInfo env viewId s = (Inr cached, s)"
    if "publishViewInfo s viewId = Some cached"
    using that by (simp add: getPublishInfo_def)
  have miss: "issued s (snd (getPublishInfo env viewId s)) = [FetchViewInfo viewId]"
    if "publishViewInfo s viewId = None"
    using that by (rule getPublishInfo_miss_issues_fetch)
  have nf: "fst (getPublishInfo env viewId s) = Inl (Error ''View not found'')
      \<and> publishViewInfo (snd (getPublishInfo env viewId s)) = publishViewInfo s"
    if "publishViewInfo s viewId = None" "fetchViewInfo env viewId = Inr info"
      "info_namespace info = None \<or> info_namespace info = Some []"
    using that by (auto simp: getPublishInfo_def Let_def)
  have ok: "fst (getPublishInfo env viewId s)
        = Inr \<lparr>data_namespace = namespace,
               data_publishName = info_publish_name info,
               data_publisherEmail = info_publisher_email info,
               data_viewId = info_view_id info,
               data_publishedAt = info_publish_timestamp info,
               data_commentEnabled = info_comments_enabled info,
               data_duplicateEnabled = info_duplicate_enabled info\<rparr>
      \<and> publishViewInfo (snd (getPublishInfo env viewId s))
        = (publishViewInfo s)(viewId \<mapsto>
             \<lparr>data_namespace = namespace,
              data_publishName = info_publish_name info,
              data_publisherEmail = info_publisher_email info,
              data_viewId = info_view_id info,
              data_publishedAt = info_publish_timestamp info,
              data_commentEnabled = info_comments_enabled info,
              data_duplicateEnabled = info_duplicate_enabled info\<rparr>)"
    if "publishViewInfo s viewId = None" "fetchViewInfo env viewId = Inr info"
      "info_namespace info = Some namespace" "namespace \<noteq> []"
    using that by (simp add: getPublishInfo_def Let_def Map_set_def)
  show ?thesis using hit miss nf ok by blast
qed

theorem getPublishInfo_read_path_witness:
  "publishViewInfo s_cached ''view42'' = Some data42
   \<and> getPublishInfo env_offline ''view42'' s_cached = (Inr data42, s_cached)
   \<and> publishViewInfo init ''view42'' = None
   \<and> fetchViewInfo env_online ''view42'' = Inr info42
   \<and> info_namespace info42 = Some ''ns1''
   \<and> issued init (snd (getPublishInfo env_online ''view42'' init)) = [FetchViewInfo ''view42'']
   \<and> fst (getPublishInfo env_online ''view42'' init) = Inr data42
   \<and> publishViewInfo (snd (getPublishInfo env_online ''view42'' init)) = [''view42'' \<mapsto> data42]
   \<and> fetchViewInfo (env_online\<lparr>fetchViewInfo := (\<lambda>viewId. Inr (info42\<lparr>info_namespace := None\<rparr>))\<rparr>)
        ''view42'' = Inr (info42\<lparr>info_namespace := None\<rparr>)
   \<and> fst (getPublishInfo
        (env_online\<lparr>fetchViewInfo := (\<lambda>viewId. Inr (info42\<lparr>info_namespace := None\<rparr>))\<rparr>)
        ''view42'' init) = Inl (Error ''View not found'')"
  using getPublishInfo_read_path [of s_cached "''view42''" data42 env_offline info42 "''ns1''"]
    getPublishInfo_read_path [of init "''view42''" data42 env_online info42 "''ns1''"]
    getPublishInfo_read_path [of init "''view42''" data42
      "env_online\<lparr>fetchViewInfo := (\<lambda>viewId. Inr (info42\<lparr>info_namespace := None\<rparr>))\<rparr>"
      "info42\<lparr>info_namespace := None\<rparr>" "''ns1''"]
  by (simp add: s_cached_def init_def env_online_def info42_def data42_def)

section \<open>Operations that need an identity\<close>

text \<open>
  Claim C8. When the session token yields no user id (no token, or an empty id),
  \<^verbatim>\<open>getPageDoc\<close> and \<^verbatim>\<open>registerDocUpdate\<close> fail with "User not found" and return the
  state they were given: no registry or cache entry changes, no call to a collaborator is
  issued, no sync binding is initialised.
\<close>

theorem identity_required_before_any_activity:
  "map_option token_user_id (getTokenParsed env) = None
     \<or> map_option token_user_id (getTokenParsed env) = Some [] \<Longrightarrow>
   getPageDoc env workspaceId viewId errorCallback s = (Inl (Error ''User not found''), s)
   \<and> registerDocUpdate env doc context s = (Inl (Error ''User not found''), s)"
  by (auto simp: getPageDoc_def registerDocUpdate_def split: option.splits)

theorem identity_required_before_any_activity_witness:
  "map_option token_user_id (getTokenParsed env_anonymous) = None
   \<and> getPageDoc env_anonymous ''w1'' ''v1'' (Some (\<lambda>e. Normal)) s_loaded
       = (Inl (Error ''User not found''), s_loaded)
   \<and> registerDocUpdate env_anonymous (YDoc ''d'')
        \<lparr>ctx_workspaceId = ''w1'', ctx_objectId = ''v1'', ctx_collabType = 0\<rparr> s_loaded
       = (Inl (Error ''User not found''), s_loaded)
   \<and> map_option token_user_id
        (getTokenParsed (env_online\<lparr>getTokenParsed := Some \<lparr>token_user_id = []\<rparr>\<rparr>)) = Some []
   \<and> getPageDoc (env_online\<lparr>getTokenParsed := Some \<lparr>token_user_id = []\<rparr>\<rparr>) ''w1'' ''v1''
        (Some (\<lambda>e. Throw e)) s_loaded = (Inl (Error ''User not found''), s_loaded)"
  using identity_required_before_any_activity [of env_anonymous "''w1''" "''v1''"
      "Some (\<lambda>e. Normal)" s_loaded
      "YDoc ''d''" "\<lparr>ctx_workspaceId = ''w1'', ctx_objectId = ''v1'', ctx_collabType = 0\<rparr>"]
    identity_required_before_any_activity
      [of "env_online\<lparr>getTokenParsed := Some \<lparr>token_user_id = []\<rparr>\<rparr>" "''w1''" "''v1''"
        "Some (\<lambda>e. Throw e)" s_loaded]
  by (simp add: env_anonymous_def)

section \<open>Entity keys\<close>

lemma separator_split:
  "c \<notin> set a \<Longrightarrow> c \<notin> set b \<Longrightarrow> a @ c # x = b @ c # y \<Longrightarrow> a = b \<and> x = y"
proof (induction a arbitrary: b)
  case Nil
  then show ?case by (cases b) auto
next
  case (Cons h a)
  then show ?case by (cases b) auto
qed

lemma underscore_split:
  assumes "CHR ''_'' \<notin> set a" "CHR ''_'' \<notin> set b" "a @ ''_'' @ x = b @ ''_'' @ y"
  shows "a = b \<and> x = y"
  using assms separator_split [of "CHR ''_''" a b x y] by simp

text \<open>
  Claim C9, as stated, fails: the parts of a key are joined by an underscore and are not
  escaped, so two different parameter tuples give the same key when a part contains an
  underscore.
\<close>

theorem entity_key_collision:
  "publishViewName ''a_b'' ''c'' = publishViewName ''a'' ''b_c''
   \<and> (''a_b'', ''c'') \<noteq> (''a'', ''b_c'')
   \<and> pageDocName ''u_1'' ''w'' ''v'' = pageDocName ''u'' ''1_w'' ''v''
   \<and> (''u_1'', ''w'', ''v'') \<noteq> (''u'', ''1_w'', ''v'')"
  by (simp add: publishViewName_def pageDocName_def)

text \<open>
  Claim C9, amended. Equal parameters give equal keys. Different parameters give
  different keys when the leading parts contain no underscore: the namespace for a
  published view, the user id and the workspace id for a page document.
\<close>

theorem entity_key_unique_without_underscore:
  "(namespace = namespace' \<and> publishName = publishName' \<longrightarrow>
      publishViewName namespace publishName = publishViewName namespace' publishName')
   \<and> (userId = userId' \<and> workspaceId = workspaceId' \<and> viewId = viewId' \<longrightarrow>
      pageDocName userId workspaceId viewId = pageDocName userId' workspaceId' viewId')
   \<and> (CHR ''_'' \<notin> set namespace \<and> CHR ''_'' \<notin> set namespace'
        \<and> publishViewName namespace publishName = publishViewName namespace' publishName' \<longrightarrow>
      namespace = namespace' \<and> publishName = publishName')
   \<and> (CHR ''_'' \<notin> set userId \<and> CHR ''_'' \<notin> set userId'
        \<and> CHR ''_'' \<notin> set workspaceId \<and> CHR ''_'' \<notin> set workspaceId'
        \<and> pageDocName userId workspaceId viewId = pageDocName userId' workspaceId' viewId' \<longrightarrow>
      userId = userId' \<and> workspaceId = workspaceId' \<and> viewId = viewId')"
proof -
  have pair: "namespace = namespace' \<and> publishName = publishName'"
    if "CHR ''_'' \<notin> set namespace" "CHR ''_'' \<notin> set namespace'"
      "publishViewName namespace publishName = publishViewName namespace' publishName'"
    using that underscore_split [of namespace namespace' publishName publishName']
    by (simp add: publishViewName_def)
  have triple: "userId = userId' \<and> workspaceId = workspaceId' \<and> viewId = viewId'"
    if u: "CHR ''_'' \<notin> set userId" "CHR ''_'' \<notin> set userId'"
      and w: "CHR ''_'' \<notin> set workspaceId" "CHR ''_'' \<notin> set workspaceId'"
      and eq: "pageDocName userId workspaceId viewId = pageDocName userId' workspaceId' viewId'"
  proof -
    from eq have "userId @ ''_'' @ (workspaceId @ ''_'' @ viewId)
        = userId' @ ''_'' @ (workspaceId' @ ''_'' @ viewId')"
      by (simp add: pageDocName_def)
    with u have 1: "userId = userId'"
      and 2: "workspaceId @ ''_'' @ viewId = workspaceId' @ ''_'' @ viewId'"
      using underscore_split by blast+
    from w 2 have "workspaceId = workspaceId' \<and> viewId = viewId'"
      using underscore_split by blast
    with 1 show ?thesis by simp
  qed
  show ?thesis using pair triple by blast
qed

theorem entity_key_unique_without_underscore_witness:
  "CHR ''_'' \<notin> set ''ns1'' \<and> CHR ''_'' \<notin> set ''ns2''
   \<and> publishViewName ''ns1'' ''my_note'' = publishViewName ''ns1'' ''my_note''
   \<and> publishViewName ''ns1'' ''my_note'' = ''ns1_my_note''
   \<and> publishViewName ''ns1'' ''my_note'' \<noteq> publishViewName ''ns2'' ''my_note''
   \<and> CHR ''_'' \<notin> set ''u1'' \<and> CHR ''_'' \<notin> set ''w1'' \<and> CHR ''_'' \<notin> set ''w2''
   \<and> pageDocName ''u1'' ''w1'' ''v1'' = pageDocName ''u1'' ''w1'' ''v1''
   \<and> pageDocName ''u1'' ''w1'' ''v1'' \<noteq> pageDocName ''u1'' ''w2'' ''v1''"
  using entity_key_unique_without_underscore [of "''ns1''" "''ns1''" "''my_note''" "''my_note''"
      "''u1''" "''u1''" "''w1''" "''w1''" "''v1''" "''v1''"]
    entity_key_unique_without_underscore [of "''ns1''" "''ns2''" "''my_note''" "''my_note''"
      "''u1''" "''u1''" "''w1''" "''w2''" "''v1''" "''v1''"]
  by (simp add: publishViewName_def)

section \<open>Retrievals\<close>

lemma run_cache_fst: "fst (run_cache c fetcher s) = settled c (fst (fetcher s))"
  by (cases c) (simp_all add: run_cache_def split: prod.splits)

lemma run_cache_Serve [simp]: "run_cache (Serve r) fetcher s = (r, s)"
  by (simp add: run_cache_def)

lemma run_cache_Revalidate [simp]:
  "run_cache (Revalidate k) fetcher s = (k (fst (fetcher s)), snd (fetcher s))"
  by (simp add: run_cache_def split: prod.splits)

lemma getPublishView_fetcher_fst [simp]:
  "fst (getPublishView_fetcher env namespace publishName name t)
     = fetchPublishView env namespace publishName"
  by (simp add: getPublishView_fetcher_def Let_def split: sum.splits)

lemma getPublishView_fetcher_fields [simp]:
  "viewLoaded (snd (getPublishView_fetcher env namespace publishName name t)) = viewLoaded t"
  "publishViewLoaded (snd (getPublishView_fetcher env namespace publishName name t))
     = publishViewLoaded t"
  "publishViewInfo (snd (getPublishView_fetcher env namespace publishName name t))
     = publishViewInfo t"
  by (simp_all add: getPublishView_fetcher_def Let_def split: sum.splits)

lemma getPublishView_fetcher_trace:
  "trace (snd (getPublishView_fetcher env namespace publishName name t))
     = trace t @ FetchPublishView namespace publishName #
         (case fetchPublishView env namespace publishName of
            Inr r \<Rightarrow> []
          | Inl e \<Rightarrow> [ConsoleError e, HasViewMetaCache name])"
  by (simp add: getPublishView_fetcher_def Let_def split: sum.splits)


lemma getPageDoc_fetcher_fst [simp]:
  "fst (getPageDoc_fetcher env workspaceId viewId errorCallback name t)
     = (case fetchPageCollab env workspaceId viewId of
          Inr r \<Rightarrow> Inr r
        | Inl e \<Rightarrow> Inl (closure_error errorCallback e))"
  by (simp add: getPageDoc_fetcher_def getPageDoc_purge_def closure_error_def Let_def
      split: sum.splits option.splits completion.splits)

lemma getPageDoc_fetcher_fields [simp]:
  "publishViewLoaded (snd (getPageDoc_fetcher env workspaceId viewId errorCallback name t))
     = publishViewLoaded t"
  "publishViewInfo (snd (getPageDoc_fetcher env workspaceId viewId errorCallback name t))
     = publishViewInfo t"
  "pending (snd (getPageDoc_fetcher env workspaceId viewId errorCallback name t)) = pending t"
  by (simp_all add: getPageDoc_fetcher_def getPageDoc_purge_def Let_def
      split: sum.splits option.splits completion.splits)

lemma getPageDoc_fetcher_viewLoaded:
  "viewLoaded (snd (getPageDoc_fetcher env workspaceId viewId errorCallback name t))
     = (case fetchPageCollab env workspaceId viewId of
          Inr r \<Rightarrow> viewLoaded t
        | Inl e \<Rightarrow>
            if callback_returns errorCallback e then viewLoaded t - {name} else viewLoaded t)"
  by (simp add: getPageDoc_fetcher_def getPageDoc_purge_def callback_returns_def Let_def
      split: sum.splits option.splits completion.splits)

lemma getPageDoc_fetcher_trace:
  "trace (snd (getPageDoc_fetcher env workspaceId viewId errorCallback name t))
     = trace t @ FetchPageCollab workspaceId viewId #
         (case fetchPageCollab env workspaceId viewId of
            Inr r \<Rightarrow> []
          | Inl e \<Rightarrow> ConsoleError e #
              (case errorCallback of None \<Rightarrow> [] | Some callback \<Rightarrow> [ErrorCallback e])
              @ (if callback_returns errorCallback e then [DeleteView name] else []))"
  by (simp add: getPageDoc_fetcher_def getPageDoc_purge_def callback_returns_def Let_def
      split: sum.splits option.splits completion.splits)

text \<open>The retrievals with the choice of the strategy folded into \<open>chosen\<close>.\<close>

lemma getPublishViewMeta_chosen:
  "getPublishViewMeta env namespace publishName s =
     (case run_cache
             (cache_getPublishViewMeta env namespace publishName
                (chosen (publishViewName namespace publishName) (publishViewLoaded s)))
             (\<lambda>t. (fetchPublishViewMeta env namespace publishName,
                    emit (FetchPublishViewMeta namespace publishName) t))
             (emit (CacheGetPublishViewMeta namespace publishName
                (chosen (publishViewName namespace publishName) (publishViewLoaded s))) s) of
        (Inl e, s1) \<Rightarrow> (Inl e, s1)
      | (Inr None, s1) \<Rightarrow> (Inl (Error ''View has not been published yet''), s1)
      | (Inr (Some viewMeta), s1) \<Rightarrow> (Inr viewMeta, s1))"
  by (simp add: getPublishViewMeta_def chosen_def Let_def)

lemma getPublishView_chosen:
  "getPublishView env namespace publishName s =
     (case run_cache
             (cache_getPublishView env namespace publishName
                (chosen (publishViewName namespace publishName) (publishViewLoaded s)))
             (getPublishView_fetcher env namespace publishName
                (publishViewName namespace publishName))
             (emit (CacheGetPublishView namespace publishName
                (chosen (publishViewName namespace publishName) (publishViewLoaded s))) s) of
        (Inl e, s1) \<Rightarrow> (Inl e, s1)
      | (Inr doc, s1) \<Rightarrow>
          (Inr doc,
           if publishViewName namespace publishName \<notin> publishViewLoaded s
           then s1\<lparr>publishViewLoaded :=
                     insert (publishViewName namespace publishName) (publishViewLoaded s1)\<rparr>
           else s1))"
  by (simp add: getPublishView_def chosen_def Let_def)

lemma getPageDoc_chosen:
  assumes "getTokenParsed env = Some token" and "token_user_id token \<noteq> []"
    and name: "name = pageDocName (token_user_id token) workspaceId viewId"
  shows "getPageDoc env workspaceId viewId errorCallback s =
     (case run_cache (cache_getPageDoc env name (chosen name (viewLoaded s)))
             (getPageDoc_fetcher env workspaceId viewId errorCallback name)
             (emit (CacheGetPageDoc name (chosen name (viewLoaded s))) s) of
        (Inl e, s1) \<Rightarrow> (Inl e, s1)
      | (Inr doc, s1) \<Rightarrow>
          (Inr doc,
           if name \<notin> viewLoaded s then s1\<lparr>viewLoaded := insert name (viewLoaded s1)\<rparr>
           else s1))"
  unfolding name using assms(1,2) by (simp add: getPageDoc_def chosen_def Let_def)

text \<open>What each retrieval appends to the trace.\<close>

lemma getPublishViewMeta_trace:
  "trace (snd (getPublishViewMeta env namespace publishName s))
     = trace s @
         CacheGetPublishViewMeta namespace publishName
           (chosen (publishViewName namespace publishName) (publishViewLoaded s)) #
         (case cache_getPublishViewMeta env namespace publishName
                 (chosen (publishViewName namespace publishName) (publishViewLoaded s)) of
            Serve r \<Rightarrow> []
          | Revalidate k \<Rightarrow> [FetchPublishViewMeta namespace publishName])"
  by (cases "cache_getPublishViewMeta env namespace publishName
        (chosen (publishViewName namespace publishName) (publishViewLoaded s))")
    (simp_all add: getPublishViewMeta_chosen split: sum.splits option.splits)

lemma getPublishView_trace:
  "trace (snd (getPublishView env namespace publishName s))
     = trace s @
         CacheGetPublishView namespace publishName
           (chosen (publishViewName namespace publishName) (publishViewLoaded s)) #
         (case cache_getPublishView env namespace publishName
                 (chosen (publishViewName namespace publishName) (publishViewLoaded s)) of
            Serve r \<Rightarrow> []
          | Revalidate k \<Rightarrow>
              FetchPublishView namespace publishName #
                (case fetchPublishView env namespace publishName of
                   Inr r \<Rightarrow> []
                 | Inl e \<Rightarrow>
                     [ConsoleError e,
                      HasViewMetaCache (publishViewName namespace publishName)]))"
  by (cases "cache_getPublishView env namespace publishName
        (chosen (publishViewName namespace publishName) (publishViewLoaded s))")
    (simp_all add: getPublishView_chosen getPublishView_fetcher_trace split: sum.splits)

lemma getPageDoc_trace:
  "getTokenParsed env = Some token \<Longrightarrow> token_user_id token \<noteq> [] \<Longrightarrow>
   name = pageDocName (token_user_id token) workspaceId viewId \<Longrightarrow>
   trace (snd (getPageDoc env workspaceId viewId errorCallback s))
     = trace s @
         CacheGetPageDoc name (chosen name (viewLoaded s)) #
         (case cache_getPageDoc env name (chosen name (viewLoaded s)) of
            Serve r \<Rightarrow> []
          | Revalidate k \<Rightarrow>
              FetchPageCollab workspaceId viewId #
                (case fetchPageCollab env workspaceId viewId of
                   Inr r \<Rightarrow> []
                 | Inl e \<Rightarrow> ConsoleError e #
                     (case errorCallback of None \<Rightarrow> [] | Some callback \<Rightarrow> [ErrorCallback e])
                     @ (if callback_returns errorCallback e then [DeleteView name] else [])))"
  by (cases "cache_getPageDoc env name (chosen name (viewLoaded s))")
    (simp_all add: getPageDoc_chosen getPageDoc_fetcher_trace split: sum.splits)

text \<open>
  Claim C1. Each of \<^verbatim>\<open>getPublishViewMeta\<close>, \<^verbatim>\<open>getPublishView\<close> and \<^verbatim>\<open>getPageDoc\<close> issues
  exactly one request to the cache collaborator, for its own key: with CACHE_AND_NETWORK
  when the key is not in the registry it consults (\<^verbatim>\<open>publishViewLoaded\<close> for the first
  two, \<^verbatim>\<open>viewLoaded\<close> for the third), with CACHE_FIRST when it is. For \<^verbatim>\<open>getPageDoc\<close> the
  key exists once the user id is resolved.
\<close>

theorem retrieval_strategy_follows_registry:
  "(publishViewName namespace publishName \<notin> publishViewLoaded s \<longrightarrow>
      cache_requests (issued s (snd (getPublishViewMeta env namespace publishName s)))
        = [(publishViewName namespace publishName, CACHE_AND_NETWORK)]
      \<and> cache_requests (issued s (snd (getPublishView env namespace publishName s)))
        = [(publishViewName namespace publishName, CACHE_AND_NETWORK)])
   \<and> (publishViewName namespace publishName \<in> publishViewLoaded s \<longrightarrow>
      cache_requests (issued s (snd (getPublishViewMeta env namespace publishName s)))
        = [(publishViewName namespace publishName, CACHE_FIRST)]
      \<and> cache_requests (issued s (snd (getPublishView env namespace publishName s)))
        = [(publishViewName namespace publishName, CACHE_FIRST)])
   \<and> (getTokenParsed env = Some token \<and> token_user_id token \<noteq> []
        \<and> pageDocName (token_user_id token) workspaceId viewId \<notin> viewLoaded s \<longrightarrow>
      cache_requests (issued s (snd (getPageDoc env workspaceId viewId errorCallback s)))
        = [(pageDocName (token_user_id token) workspaceId viewId, CACHE_AND_NETWORK)])
   \<and> (getTokenParsed env = Some token \<and> token_user_id token \<noteq> []
        \<and> pageDocName (token_user_id token) workspaceId viewId \<in> viewLoaded s \<longrightarrow>
      cache_requests (issued s (snd (getPageDoc env workspaceId viewId errorCallback s)))
        = [(pageDocName (token_user_id token) workspaceId viewId, CACHE_FIRST)])"
proof -
  have meta: "cache_requests (issued s (snd (getPublishViewMeta env namespace publishName s)))
      = [(publishViewName namespace publishName,
          chosen (publishViewName namespace publishName) (publishViewLoaded s))]"
    by (simp add: getPublishViewMeta_trace split: cache_run.splits)
  have view: "cache_requests (issued s (snd (getPublishView env namespace publishName s)))
      = [(publishViewName namespace publishName,
          chosen (publishViewName namespace publishName) (publishViewLoaded s))]"
    by (simp add: getPublishView_trace split: cache_run.splits sum.splits)
  have page: "cache_requests (issued s (snd (getPageDoc env workspaceId viewId errorCallback s)))
      = [(pageDocName (token_user_id token) workspaceId viewId,
          chosen (pageDocName (token_user_id token) workspaceId viewId) (viewLoaded s))]"
    if "getTokenParsed env = Some token" "token_user_id token \<noteq> []"
    using getPageDoc_trace [OF that refl, of workspaceId viewId errorCallback s]
    by (simp split: cache_run.splits sum.splits option.splits)
  show ?thesis using meta view page by (simp add: chosen_def)
qed

theorem retrieval_strategy_follows_registry_witness:
  "publishViewName ''ns1'' ''note'' \<notin> publishViewLoaded init
   \<and> cache_requests (issued init (snd (getPublishViewMeta env_online ''ns1'' ''note'' init)))
       = [(''ns1_note'', CACHE_AND_NETWORK)]
   \<and> cache_requests (issued init (snd (getPublishView env_online ''ns1'' ''note'' init)))
       = [(''ns1_note'', CACHE_AND_NETWORK)]
   \<and> publishViewName ''ns1'' ''note'' \<in> publishViewLoaded s_loaded
   \<and> cache_requests (issued s_loaded (snd (getPublishViewMeta env_online ''ns1'' ''note'' s_loaded)))
       = [(''ns1_note'', CACHE_FIRST)]
   \<and> cache_requests (issued s_loaded (snd (getPublishView env_online ''ns1'' ''note'' s_loaded)))
       = [(''ns1_note'', CACHE_FIRST)]
   \<and> getTokenParsed env_online = Some \<lparr>token_user_id = ''u1''\<rparr>
   \<and> pageDocName ''u1'' ''w1'' ''v1'' \<notin> viewLoaded init
   \<and> cache_requests (issued init (snd (getPageDoc env_online ''w1'' ''v1'' None init)))
       = [(''u1_w1_v1'', CACHE_AND_NETWORK)]
   \<and> pageDocName ''u1'' ''w1'' ''v1'' \<in> viewLoaded s_loaded
   \<and> cache_requests (issued s_loaded (snd (getPageDoc env_online ''w1'' ''v1'' None s_loaded)))
       = [(''u1_w1_v1'', CACHE_FIRST)]"
  using retrieval_strategy_follows_registry [of "''ns1''" "''note''" init env_online
      "\<lparr>token_user_id = ''u1''\<rparr>" "''w1''" "''v1''" None]
    retrieval_strategy_follows_registry [of "''ns1''" "''note''" s_loaded env_online
      "\<lparr>token_user_id = ''u1''\<rparr>" "''w1''" "''v1''" None]
  by (simp add: publishViewName_def pageDocName_def init_def s_loaded_def env_online_def)

text \<open>
  Claim C6. When the cache function settles with an absent entity, \<^verbatim>\<open>getPublishViewMeta\<close>
  rejects with "View has not been published yet" and \<^verbatim>\<open>getCurrentUser\<close> with "User not
  found"; when the collab database opens a document without content,
  \<^verbatim>\<open>getPublishRowDocument\<close> rejects with "Document not found". A present entity is
  returned. A rejection of the collaborator is another outcome: it reaches the caller
  as the collaborator's own error.
\<close>

theorem absent_entity_is_not_found:
  "(settled (cache_getPublishViewMeta env namespace publishName
        (chosen (publishViewName namespace publishName) (publishViewLoaded s)))
      (fetchPublishViewMeta env namespace publishName) = Inr None \<longrightarrow>
      fst (getPublishViewMeta env namespace publishName s)
        = Inl (Error ''View has not been published yet''))
   \<and> (settled (cache_getPublishViewMeta env namespace publishName
        (chosen (publishViewName namespace publishName) (publishViewLoaded s)))
      (fetchPublishViewMeta env namespace publishName) = Inr (Some viewMeta) \<longrightarrow>
      fst (getPublishViewMeta env namespace publishName s) = Inr viewMeta)
   \<and> (settled (cache_getPublishViewMeta env namespace publishName
        (chosen (publishViewName namespace publishName) (publishViewLoaded s)))
      (fetchPublishViewMeta env namespace publishName) = Inl e \<longrightarrow>
      fst (getPublishViewMeta env namespace publishName s) = Inl e)
   \<and> (settled (cache_getUser env (map_option token_user_id (getTokenParsed env)) CACHE_AND_NETWORK)
      (APIService env GetCurrentUser) = Inr None \<longrightarrow>
      fst (getCurrentUser env s) = Inl (Error ''User not found''))
   \<and> (settled (cache_getUser env (map_option token_user_id (getTokenParsed env)) CACHE_AND_NETWORK)
      (APIService env GetCurrentUser) = Inr (Some user) \<longrightarrow>
      fst (getCurrentUser env s) = Inr user)
   \<and> (settled (cache_getUser env (map_option token_user_id (getTokenParsed env)) CACHE_AND_NETWORK)
      (APIService env GetCurrentUser) = Inl e \<longrightarrow>
      fst (getCurrentUser env s) = Inl e)
   \<and> (openCollabDB env viewId = Inr doc \<and> \<not> hasCollabCache env doc \<longrightarrow>
      fst (getPublishRowDocument env viewId s) = Inl (Error ''Document not found''))
   \<and> (openCollabDB env viewId = Inr doc \<and> hasCollabCache env doc \<longrightarrow>
      fst (getPublishRowDocument env viewId s) = Inr doc)
   \<and> (openCollabDB env viewId = Inl e \<longrightarrow>
      fst (getPublishRowDocument env viewId s) = Inl e)"
proof -
  let ?meta = "run_cache
      (cache_getPublishViewMeta env namespace publishName
         (chosen (publishViewName namespace publishName) (publishViewLoaded s)))
      (\<lambda>t. (fetchPublishViewMeta env namespace publishName,
             emit (FetchPublishViewMeta namespace publishName) t))
      (emit (CacheGetPublishViewMeta namespace publishName
         (chosen (publishViewName namespace publishName) (publishViewLoaded s))) s)"
  have m: "fst (getPublishViewMeta env namespace publishName s)
      = (case fst ?meta of
           Inl e \<Rightarrow> Inl e
         | Inr None \<Rightarrow> Inl (Error ''View has not been published yet'')
         | Inr (Some viewMeta) \<Rightarrow> Inr viewMeta)"
    by (simp add: getPublishViewMeta_chosen split: prod.splits sum.splits option.splits)
  have m': "fst ?meta = settled (cache_getPublishViewMeta env namespace publishName
        (chosen (publishViewName namespace publishName) (publishViewLoaded s)))
      (fetchPublishViewMeta env namespace publishName)"
    by (simp add: run_cache_fst)
  let ?user = "run_cache
      (cache_getUser env (map_option token_user_id (getTokenParsed env)) CACHE_AND_NETWORK)
      (APIService_call env GetCurrentUser)
      (emit (CacheGetUser (map_option token_user_id (getTokenParsed env)) CACHE_AND_NETWORK) s)"
  have u: "fst (getCurrentUser env s)
      = (case fst ?user of
           Inl e \<Rightarrow> Inl e
         | Inr None \<Rightarrow> Inl (Error ''User not found'')
         | Inr (Some user) \<Rightarrow> Inr user)"
    by (simp add: getCurrentUser_def Let_def split: prod.splits sum.splits option.splits)
  have u': "fst ?user
      = settled (cache_getUser env (map_option token_user_id (getTokenParsed env)) CACHE_AND_NETWORK)
          (APIService env GetCurrentUser)"
    by (simp add: run_cache_fst)
  have d: "fst (getPublishRowDocument env viewId s)
      = (case openCollabDB env viewId of
           Inl e \<Rightarrow> Inl e
         | Inr doc \<Rightarrow> if hasCollabCache env doc then Inr doc
                       else Inl (Error ''Document not found''))"
    by (simp add: getPublishRowDocument_def Let_def split: sum.splits)
  show ?thesis
    unfolding m m' u u' d by simp
qed

theorem absent_entity_is_not_found_witness:
  "settled (cache_getPublishViewMeta env_absent ''ns1'' ''note''
       (chosen (publishViewName ''ns1'' ''note'') (publishViewLoaded init)))
     (fetchPublishViewMeta env_absent ''ns1'' ''note'') = Inr None
   \<and> fst (getPublishViewMeta env_absent ''ns1'' ''note'' init)
       = Inl (Error ''View has not been published yet'')
   \<and> fst (getCurrentUser env_absent init) = Inl (Error ''User not found'')
   \<and> openCollabDB env_absent ''row1'' = Inr (YDoc [])
   \<and> \<not> hasCollabCache env_absent (YDoc [])
   \<and> fst (getPublishRowDocument env_absent ''row1'' init) = Inl (Error ''Document not found'')
   \<and> fst (getPublishViewMeta env_online ''ns1'' ''note'' init) = Inr (ViewMeta ''meta'')
   \<and> fst (getCurrentUser env_online init) = Inr (User ''ok'')
   \<and> fst (getPublishViewMeta env_offline ''ns1'' ''note'' init) = Inl (Error ''Network Error'')
   \<and> fst (getCurrentUser env_offline init) = Inl (Error ''Network Error'')
   \<and> hasCollabCache (env_online\<lparr>hasCollabCache := (\<lambda>doc. True)\<rparr>) (YDoc [])
   \<and> fst (getPublishRowDocument (env_online\<lparr>hasCollabCache := (\<lambda>doc. True)\<rparr>) ''row1'' init)
       = Inr (YDoc [])
   \<and> fst (getPublishRowDocument
        (env_online\<lparr>openCollabDB := (\<lambda>name. Inl (Error ''blocked''))\<rparr>) ''row1'' init)
       = Inl (Error ''blocked'')"
  using absent_entity_is_not_found [of env_absent "''ns1''" "''note''" init "ViewMeta ''meta''"
      "Error ''Network Error''" "User ''ok''" "''row1''" "YDoc []"]
    absent_entity_is_not_found [of env_online "''ns1''" "''note''" init "ViewMeta ''meta''"
      "Error ''Network Error''" "User ''ok''" "''row1''" "YDoc []"]
    absent_entity_is_not_found [of env_offline "''ns1''" "''note''" init "ViewMeta ''meta''"
      "Error ''Network Error''" "User ''ok''" "''row1''" "YDoc []"]
    absent_entity_is_not_found [of "env_online\<lparr>hasCollabCache := (\<lambda>doc. True)\<rparr>"
      "''ns1''" "''note''" init "ViewMeta ''meta''" "Error ''Network Error''" "User ''ok''"
      "''row1''" "YDoc []"]
    absent_entity_is_not_found [of "env_online\<lparr>openCollabDB := (\<lambda>name. Inl (Error ''blocked''))\<rparr>"
      "''ns1''" "''note''" init "ViewMeta ''meta''" "Error ''blocked''" "User ''ok''"
      "''row1''" "YDoc []"]
  by (simp add: env_absent_def env_online_def env_offline_def init_def chosen_def
      spec_cache_def metaOf_def userOf_def)

section \<open>Invalidation after a rejected fetch\<close>








section \<open>The loaded-key registries\<close>

lemma getPublishViewMeta_fields [simp]:
  "viewLoaded (snd (getPublishViewMeta env namespace publishName s)) = viewLoaded s"
  "publishViewLoaded (snd (getPublishViewMeta env namespace publishName s)) = publishViewLoaded s"
  by (cases "cache_getPublishViewMeta env namespace publishName
        (chosen (publishViewName namespace publishName) (publishViewLoaded s))";
      simp add: getPublishViewMeta_chosen split: sum.splits option.splits)+

lemma getPublishView_viewLoaded [simp]:
  "viewLoaded (snd (getPublishView env namespace publishName s)) = viewLoaded s"
  by (cases "cache_getPublishView env namespace publishName
        (chosen (publishViewName namespace publishName) (publishViewLoaded s))")
    (simp_all add: getPublishView_chosen split: sum.splits)

lemma getPublishView_publishViewLoaded:
  "publishViewLoaded (snd (getPublishView env namespace publishName s))
     = (case fst (getPublishView env namespace publishName s) of
          Inl e \<Rightarrow> publishViewLoaded s
        | Inr doc \<Rightarrow> insert (publishViewName namespace publishName) (publishViewLoaded s))"
  by (cases "cache_getPublishView env namespace publishName
        (chosen (publishViewName namespace publishName) (publishViewLoaded s))")
    (auto simp: getPublishView_chosen split: sum.splits)

lemma getPageDoc_publishViewLoaded [simp]:
  "publishViewLoaded (snd (getPageDoc env workspaceId viewId errorCallback s)) = publishViewLoaded s"
proof (cases "getTokenParsed env")
  case None
  then show ?thesis by (simp add: getPageDoc_def)
next
  case (Some token)
  show ?thesis
  proof (cases "token_user_id token = []")
    case True
    with Some show ?thesis by (simp add: getPageDoc_def)
  next
    case False
    show ?thesis
      by (cases "cache_getPageDoc env (pageDocName (token_user_id token) workspaceId viewId)
            (chosen (pageDocName (token_user_id token) workspaceId viewId) (viewLoaded s))")
        (simp_all add: getPageDoc_chosen [OF Some False refl] split: sum.splits)
  qed
qed

lemma getPageDoc_registers:
  assumes tok: "getTokenParsed env = Some token"
    and name: "name = pageDocName (token_user_id token) workspaceId viewId"
    and ok: "fst (getPageDoc env workspaceId viewId errorCallback s) = Inr doc"
  shows "name \<in> viewLoaded (snd (getPageDoc env workspaceId viewId errorCallback s))
     \<or> (name \<in> viewLoaded s
          \<and> DeleteView name \<in> set (issued s (snd (getPageDoc env workspaceId viewId errorCallback s))))"
proof -
  have id: "token_user_id token \<noteq> []"
    using tok ok by (auto simp: getPageDoc_def)
  note unfold = getPageDoc_chosen [OF tok id name, of errorCallback s]
  note tr = getPageDoc_trace [OF tok id name, of errorCallback s]
  show ?thesis
  proof (cases "cache_getPageDoc env name (chosen name (viewLoaded s))")
    case (Serve r)
    with ok show ?thesis by (cases r) (auto simp: unfold)
  next
    case (Revalidate k)
    show ?thesis
    proof (cases "fetchPageCollab env workspaceId viewId")
      case (Inr r)
      with ok Revalidate show ?thesis
        by (cases "k (Inr r)") (auto simp: unfold getPageDoc_fetcher_viewLoaded)
    next
      case (Inl e)
      with ok Revalidate show ?thesis
        using tr
        by (cases "k (Inl (closure_error errorCallback e))"; cases "callback_returns errorCallback e")
          (auto simp: unfold getPageDoc_fetcher_viewLoaded)
    qed
  qed
qed

lemma getPageDoc_keeps:
  assumes key: "key \<in> viewLoaded s"
  shows "key \<in> viewLoaded (snd (getPageDoc env workspaceId viewId errorCallback s))
     \<or> DeleteView key \<in> set (issued s (snd (getPageDoc env workspaceId viewId errorCallback s)))"
proof (cases "getTokenParsed env")
  case None
  with key show ?thesis by (simp add: getPageDoc_def)
next
  case (Some token)
  show ?thesis
  proof (cases "token_user_id token = []")
    case True
    with Some key show ?thesis by (simp add: getPageDoc_def)
  next
    case False
    define name where "name = pageDocName (token_user_id token) workspaceId viewId"
    note unfold = getPageDoc_chosen [OF Some False name_def, of errorCallback s]
    note tr = getPageDoc_trace [OF Some False name_def, of errorCallback s]
    show ?thesis
    proof (cases "cache_getPageDoc env name (chosen name (viewLoaded s))")
      case (Serve r)
      with key show ?thesis by (cases r) (auto simp: unfold)
    next
      case (Revalidate k)
      show ?thesis
      proof (cases "fetchPageCollab env workspaceId viewId")
        case (Inr r)
        with key Revalidate show ?thesis
          by (cases "k (Inr r)") (auto simp: unfold getPageDoc_fetcher_viewLoaded)
      next
        case (Inl e)
        with key Revalidate show ?thesis
          using tr
          by (cases "k (Inl (closure_error errorCallback e))";
              cases "callback_returns errorCallback e")
            (auto simp: unfold getPageDoc_fetcher_viewLoaded)
      qed
    qed
  qed
qed

lemma getPageDoc_trace_extends:
  "\<exists>evs. trace (snd (getPageDoc env workspaceId viewId errorCallback s)) = trace s @ evs"
proof (cases "getTokenParsed env")
  case None
  then show ?thesis by (simp add: getPageDoc_def)
next
  case (Some token)
  show ?thesis
  proof (cases "token_user_id token = []")
    case True
    with Some show ?thesis by (simp add: getPageDoc_def)
  next
    case False
    show ?thesis using getPageDoc_trace [OF Some False refl, of workspaceId viewId errorCallback s]
      by blast
  qed
qed

lemma getCurrentUser_fields [simp]:
  "viewLoaded (snd (getCurrentUser env s)) = viewLoaded s"
  "publishViewLoaded (snd (getCurrentUser env s)) = publishViewLoaded s"
  by (cases "cache_getUser env (map_option token_user_id (getTokenParsed env)) CACHE_AND_NETWORK";
      simp add: getCurrentUser_def Let_def split: sum.splits option.splits)+

lemma getCurrentUser_trace_extends: "\<exists>evs. trace (snd (getCurrentUser env s)) = trace s @ evs"
  by (cases "cache_getUser env (map_option token_user_id (getTokenParsed env)) CACHE_AND_NETWORK")
    (simp_all add: getCurrentUser_def Let_def split: sum.splits option.splits)

lemma resume_viewLoaded [simp]: "viewLoaded (snd (resume env s)) = viewLoaded s"
  by (simp add: resume_def Let_def split: list.splits task.splits sum.splits)

lemma resume_trace_extends: "\<exists>evs. trace (snd (resume env s)) = trace s @ evs"
  by (simp add: resume_def Let_def split: list.splits task.splits sum.splits)

lemma resume_keeps:
  "key \<in> publishViewLoaded s \<Longrightarrow>
     key \<in> publishViewLoaded (snd (resume env s))
     \<or> DeleteView key \<in> set (issued s (snd (resume env s)))"
  by (auto simp: resume_def Let_def split: list.splits task.splits sum.splits)

lemma perform_trace_extends: "\<exists>evs. trace (perform env c s) = trace s @ evs"
proof (cases c)
  case (Call_getPublishInfo viewId)
  then show ?thesis
    by (simp add: getPublishInfo_def Let_def split: option.splits sum.splits)
next
  case (Call_getPublishViewMeta namespace publishName)
  then show ?thesis by (simp add: getPublishViewMeta_trace)
next
  case (Call_getPublishView namespace publishName)
  then show ?thesis by (simp add: getPublishView_trace)
next
  case (Call_getPageDoc workspaceId viewId errorCallback)
  then show ?thesis by (simp add: getPageDoc_trace_extends)
next
  case Call_getCurrentUser
  then show ?thesis by (simp add: getCurrentUser_trace_extends)
next
  case Resume
  then show ?thesis by (simp add: resume_trace_extends)
qed (simp_all add: publishView_def unpublishView_def updatePublishNamespace_def
    updatePublishHomepage_def removePublishHomepage_def updatePublishConfig_def
    getPublishRowDocument_def registerDocUpdate_def Let_def split: sum.splits option.splits)

lemma perform_keeps_publishViewLoaded:
  assumes "key \<in> publishViewLoaded s"
  shows "key \<in> publishViewLoaded (perform env c s)
     \<or> (c = Resume \<and> DeleteView key \<in> set (issued s (perform env c s)))"
proof (cases c)
  case (Call_getPublishInfo viewId)
  with assms show ?thesis
    by (simp add: getPublishInfo_def Let_def split: option.splits sum.splits)
next
  case (Call_getPublishView namespace publishName)
  with assms show ?thesis
    by (simp add: getPublishView_publishViewLoaded split: sum.splits)
next
  case Resume
  with assms show ?thesis using resume_keeps [of key s env] by simp
qed (use assms in \<open>simp_all add: publishView_def unpublishView_def updatePublishNamespace_def
    updatePublishHomepage_def removePublishHomepage_def updatePublishConfig_def
    getPublishRowDocument_def registerDocUpdate_def Let_def split: sum.splits option.splits\<close>)

lemma perform_keeps_viewLoaded:
  assumes "key \<in> viewLoaded s"
  shows "key \<in> viewLoaded (perform env c s)
     \<or> ((\<exists>workspaceId viewId errorCallback. c = Call_getPageDoc workspaceId viewId errorCallback)
          \<and> DeleteView key \<in> set (issued s (perform env c s)))"
proof (cases c)
  case (Call_getPublishInfo viewId)
  with assms show ?thesis
    by (simp add: getPublishInfo_def Let_def split: option.splits sum.splits)
next
  case (Call_getPageDoc workspaceId viewId errorCallback)
  with assms show ?thesis
    using getPageDoc_keeps [of key s env workspaceId viewId errorCallback] by simp
qed (use assms in \<open>simp_all add: publishView_def unpublishView_def updatePublishNamespace_def
    updatePublishHomepage_def removePublishHomepage_def updatePublishConfig_def
    getPublishRowDocument_def registerDocUpdate_def Let_def split: sum.splits option.splits\<close>)

lemma issued_split:
  assumes "trace s1 = trace s @ a" and "trace s2 = trace s1 @ b"
  shows "issued s s2 = issued s s1 @ issued s1 s2"
  using assms by (simp add: issued_def)

lemma run_Cons: "run ((env, c) # calls) s = run calls (perform env c s)"
  by (simp add: run_def)

lemma run_trace_extends: "\<exists>evs. trace (run calls s) = trace s @ evs"
proof (induction calls arbitrary: s)
  case Nil
  then show ?case by (simp add: run_def)
next
  case (Cons x calls)
  obtain env c where x: "x = (env, c)" by (cases x)
  obtain a where a: "trace (perform env c s) = trace s @ a"
    using perform_trace_extends by blast
  obtain b where b: "trace (run calls (perform env c s)) = trace (perform env c s) @ b"
    using Cons.IH by blast
  show ?case unfolding x run_Cons using a b by simp
qed

lemma run_issued_Cons:
  "issued s (run ((env, c) # calls) s)
     = issued s (perform env c s) @ issued (perform env c s) (run calls (perform env c s))"
proof -
  obtain a where a: "trace (perform env c s) = trace s @ a"
    using perform_trace_extends by blast
  obtain b where b: "trace (run calls (perform env c s)) = trace (perform env c s) @ b"
    using run_trace_extends by blast
  show ?thesis unfolding run_Cons using issued_split [OF a b] .
qed

lemma run_keeps_publishViewLoaded:
  "key \<in> publishViewLoaded s \<Longrightarrow> DeleteView key \<notin> set (issued s (run calls s)) \<Longrightarrow>
     key \<in> publishViewLoaded (run calls s)"
proof (induction calls arbitrary: s)
  case Nil
  then show ?case by (simp add: run_def)
next
  case (Cons x calls)
  obtain env c where x: "x = (env, c)" by (cases x)
  from Cons.prems(2) have no: "DeleteView key \<notin> set (issued s (perform env c s))"
    "DeleteView key \<notin> set (issued (perform env c s) (run calls (perform env c s)))"
    unfolding x run_issued_Cons by simp_all
  from Cons.prems(1) no(1) have "key \<in> publishViewLoaded (perform env c s)"
    using perform_keeps_publishViewLoaded [of key s env c] by blast
  from Cons.IH [OF this no(2)] show ?case unfolding x run_Cons .
qed

lemma run_keeps_viewLoaded:
  "key \<in> viewLoaded s \<Longrightarrow> DeleteView key \<notin> set (issued s (run calls s)) \<Longrightarrow>
     key \<in> viewLoaded (run calls s)"
proof (induction calls arbitrary: s)
  case Nil
  then show ?case by (simp add: run_def)
next
  case (Cons x calls)
  obtain env c where x: "x = (env, c)" by (cases x)
  from Cons.prems(2) have no: "DeleteView key \<notin> set (issued s (perform env c s))"
    "DeleteView key \<notin> set (issued (perform env c s) (run calls (perform env c s)))"
    unfolding x run_issued_Cons by simp_all
  from Cons.prems(1) no(1) have "key \<in> viewLoaded (perform env c s)"
    using perform_keeps_viewLoaded [of key s env c] by blast
  from Cons.IH [OF this no(2)] show ?case unfolding x run_Cons .
qed

text \<open>
  Claim C2, as stated, fails for \<^verbatim>\<open>getPublishViewMeta\<close>: it reads \<^verbatim>\<open>publishViewLoaded\<close>
  but never adds to it. On a fresh instance the call resolves with the view's metadata and
  the key is still not registered.
\<close>

theorem getPublishViewMeta_does_not_register:
  "fst (getPublishViewMeta env_online ''ns1'' ''note'' init) = Inr (ViewMeta ''meta'')
   \<and> publishViewName ''ns1'' ''note''
       \<notin> publishViewLoaded (snd (getPublishViewMeta env_online ''ns1'' ''note'' init))"
  by (simp add: getPublishViewMeta_def publishViewName_def Let_def env_online_def init_def
      spec_cache_def metaOf_def)

text \<open>
  Claim C2, amended. After \<^verbatim>\<open>getPublishView\<close> resolves, its key is in
  \<^verbatim>\<open>publishViewLoaded\<close>. After \<^verbatim>\<open>getPageDoc\<close> resolves, its key is in \<^verbatim>\<open>viewLoaded\<close>,
  unless the key was registered before and the call itself invalidated it (its fetch was
  rejected, \<^verbatim>\<open>deleteView\<close> was issued, and the cache function resolved all the same).
  \<^verbatim>\<open>getPublishViewMeta\<close> leaves the registry as it is. A registered key stays registered
  over any sequence of calls and resumed purges during which no \<^verbatim>\<open>deleteView\<close> for that
  key is issued, that is, until an invalidation removes it.
\<close>

theorem successful_retrieval_registers_key:
  "(fst (getPublishView env namespace publishName s) = Inr doc \<longrightarrow>
      publishViewName namespace publishName
        \<in> publishViewLoaded (snd (getPublishView env namespace publishName s)))
   \<and> (getTokenParsed env = Some token
        \<and> fst (getPageDoc env workspaceId viewId errorCallback s) = Inr doc \<longrightarrow>
      pageDocName (token_user_id token) workspaceId viewId
        \<in> viewLoaded (snd (getPageDoc env workspaceId viewId errorCallback s))
      \<or> (pageDocName (token_user_id token) workspaceId viewId \<in> viewLoaded s
           \<and> DeleteView (pageDocName (token_user_id token) workspaceId viewId)
               \<in> set (issued s (snd (getPageDoc env workspaceId viewId errorCallback s)))))
   \<and> publishViewLoaded (snd (getPublishViewMeta env namespace publishName s)) = publishViewLoaded s
   \<and> (key \<in> publishViewLoaded s \<and> DeleteView key \<notin> set (issued s (run calls s)) \<longrightarrow>
      key \<in> publishViewLoaded (run calls s))
   \<and> (key \<in> viewLoaded s \<and> DeleteView key \<notin> set (issued s (run calls s)) \<longrightarrow>
      key \<in> viewLoaded (run calls s))"
proof -
  have pv: "publishViewName namespace publishName
        \<in> publishViewLoaded (snd (getPublishView env namespace publishName s))"
    if "fst (getPublishView env namespace publishName s) = Inr doc"
    using that by (simp add: getPublishView_publishViewLoaded)
  have pd: "pageDocName (token_user_id token) workspaceId viewId
        \<in> viewLoaded (snd (getPageDoc env workspaceId viewId errorCallback s))
      \<or> (pageDocName (token_user_id token) workspaceId viewId \<in> viewLoaded s
           \<and> DeleteView (pageDocName (token_user_id token) workspaceId viewId)
               \<in> set (issued s (snd (getPageDoc env workspaceId viewId errorCallback s))))"
    if "getTokenParsed env = Some token"
      "fst (getPageDoc env workspaceId viewId errorCallback s) = Inr doc"
    using getPageDoc_registers [OF that(1) refl that(2)] .
  show ?thesis
    using pv pd run_keeps_publishViewLoaded [of key s calls] run_keeps_viewLoaded [of key s calls]
    by simp
qed

theorem successful_retrieval_registers_key_witness:
  "fst (getPublishView env_online ''ns1'' ''note'' init) = Inr (YDoc ''view'')
   \<and> ''ns1_note'' \<in> publishViewLoaded (snd (getPublishView env_online ''ns1'' ''note'' init))
   \<and> getTokenParsed env_online = Some \<lparr>token_user_id = ''u1''\<rparr>
   \<and> fst (getPageDoc env_online ''w1'' ''v1'' None init) = Inr (YDoc ''page'')
   \<and> ''u1_w1_v1'' \<in> viewLoaded (snd (getPageDoc env_online ''w1'' ''v1'' None init))
   \<and> ''ns1_note'' \<in> publishViewLoaded s_loaded
   \<and> DeleteView ''ns1_note''
       \<notin> set (issued s_loaded
            (run [(env_online, Call_getPublishViewMeta ''ns1'' ''note''),
                  (env_offline, Call_getPublishView ''ns1'' ''note''),
                  (env_offline, Resume)] s_loaded))
   \<and> ''ns1_note''
       \<in> publishViewLoaded
            (run [(env_online, Call_getPublishViewMeta ''ns1'' ''note''),
                  (env_offline, Call_getPublishView ''ns1'' ''note''),
                  (env_offline, Resume)] s_loaded)
   \<and> ''u1_w1_v1'' \<in> viewLoaded s_loaded
   \<and> ''u1_w1_v1''
       \<in> viewLoaded
            (run [(env_online, Call_getPublishViewMeta ''ns1'' ''note''),
                  (env_offline, Call_getPublishView ''ns1'' ''note''),
                  (env_offline, Resume)] s_loaded)"
  using successful_retrieval_registers_key [of env_online "''ns1''" "''note''" init "YDoc ''view''"
      "\<lparr>token_user_id = ''u1''\<rparr>" "''w1''" "''v1''" None "''ns1_note''" "[]"]
    successful_retrieval_registers_key [of env_online "''ns1''" "''note''" init "YDoc ''page''"
      "\<lparr>token_user_id = ''u1''\<rparr>" "''w1''" "''v1''" None "''ns1_note''" "[]"]
    successful_retrieval_registers_key [of env_online "''ns1''" "''note''" s_loaded "YDoc ''view''"
      "\<lparr>token_user_id = ''u1''\<rparr>" "''w1''" "''v1''" None "''ns1_note''"
      "[(env_online, Call_getPublishViewMeta ''ns1'' ''note''),
        (env_offline, Call_getPublishView ''ns1'' ''note''),
        (env_offline, Resume)]"]
    successful_retrieval_registers_key [of env_online "''ns1''" "''note''" s_loaded "YDoc ''view''"
      "\<lparr>token_user_id = ''u1''\<rparr>" "''w1''" "''v1''" None "''u1_w1_v1''"
      "[(env_online, Call_getPublishViewMeta ''ns1'' ''note''),
        (env_offline, Call_getPublishView ''ns1'' ''note''),
        (env_offline, Resume)]"]
  by (simp add: run_def getPublishViewMeta_def getPublishView_def getPublishView_fetcher_def
      getPageDoc_def getPageDoc_fetcher_def resume_def publishViewName_def pageDocName_def
      Let_def env_offline_def env_online_def s_loaded_def init_def spec_cache_def docOf_def
      metaOf_def issued_def emit_def spawn_def)

end
